theory Spec2Isabelle
  imports Main "HOL-Library.Word"
begin

unbundle bit_operations_syntax

section \<open>Machine integers and errors\<close>

type_synonym u8 = "8 word"
type_synonym u32 = "32 word"
type_synonym u64 = "64 word"

text \<open>
  The error kinds that \<^verbatim>\<open>linux_kernel.c\<close> creates or inspects. An error is either one of
  the three statically allocated sentinels, which the code compares by address
  (\<^verbatim>\<open>err == &drgn_stop\<close>, \<^verbatim>\<open>err != &drgn_not_found\<close>), or an error object created
  with a kind and a message. The \<^verbatim>\<open>printf\<close>-style formatting of messages (paths, offsets,
  \<^verbatim>\<open>errno\<close> texts) is not modelled: a created error carries the format's fixed text.
\<close>

datatype drgn_error_code =
    DRGN_ERROR_NO_MEMORY
  | DRGN_ERROR_STOP
  | DRGN_ERROR_NOT_FOUND
  | DRGN_ERROR_OTHER
  | DRGN_ERROR_OS
  | DRGN_ERROR_OVERFLOW
  | DRGN_ERROR_LOOKUP

datatype drgn_error =
    drgn_enomem
  | drgn_stop
  | drgn_not_found
  | drgn_error_create drgn_error_code string

text \<open>
  Modelled from the spec: the kinds of the three sentinel errors, whose definitions
  (\<^verbatim>\<open>error.h\<close>, \<^verbatim>\<open>error.c\<close>) are not part of the source at hand. The specification lists
  \<^verbatim>\<open>ENOMEM\<close>, \<^verbatim>\<open>STOP\<close> and \<^verbatim>\<open>NOT_FOUND\<close> as kinds of their own.
\<close>

fun error_code :: "drgn_error \<Rightarrow> drgn_error_code" where
  "error_code drgn_enomem = DRGN_ERROR_NO_MEMORY"
| "error_code drgn_stop = DRGN_ERROR_STOP"
| "error_code drgn_not_found = DRGN_ERROR_NOT_FOUND"
| "error_code (drgn_error_create c m) = c"

section \<open>The C library's number conversion\<close>

text \<open>
  \<^verbatim>\<open>strtoull\<close> as ISO C11 defines it in the "C" locale. The argument is the memory from
  the pointer on, as a list of bytes; the end of the list stands for a byte that is
  neither white space nor a digit (as the terminating NUL is). The result is the value,
  the offset of \<^verbatim>\<open>*endptr\<close> from the start (0 when no conversion was performed), and
  whether \<^verbatim>\<open>errno\<close> was set to \<^verbatim>\<open>ERANGE\<close>.
\<close>

definition isspace :: "char \<Rightarrow> bool" where
  "isspace c \<longleftrightarrow> c = CHR '' '' \<or> (9 \<le> (of_char c :: nat) \<and> (of_char c :: nat) \<le> 13)"

definition digit_of :: "nat \<Rightarrow> char \<Rightarrow> nat option" where
  "digit_of base c =
     (let n = (of_char c :: nat);
          d = (if 48 \<le> n \<and> n \<le> 57 then Some (n - 48)
               else if 97 \<le> n \<and> n \<le> 122 then Some (n - 87)
               else if 65 \<le> n \<and> n \<le> 90 then Some (n - 55)
               else None)
      in case d of None \<Rightarrow> None | Some v \<Rightarrow> if v < base then Some v else None)"

text \<open>The longest run of digits of the base: its value and its length.\<close>

fun scan_digits :: "nat \<Rightarrow> char list \<Rightarrow> nat \<Rightarrow> nat \<Rightarrow> nat \<times> nat" where
  "scan_digits base [] acc n = (acc, n)"
| "scan_digits base (c # cs) acc n =
     (case digit_of base c of
        None \<Rightarrow> (acc, n)
      | Some d \<Rightarrow> scan_digits base cs (acc * base + d) (Suc n))"

definition sign_of :: "char list \<Rightarrow> bool \<times> nat" where
  "sign_of s =
     (case s of
        [] \<Rightarrow> (False, 0)
      | c # _ \<Rightarrow> if c = CHR ''-'' then (True, 1) else if c = CHR ''+'' then (False, 1) else (False, 0))"

definition has_hex_prefix :: "char list \<Rightarrow> bool" where
  "has_hex_prefix s =
     (case s of
        a # b # c # _ \<Rightarrow> a = CHR ''0'' \<and> (b = CHR ''x'' \<or> b = CHR ''X'') \<and> digit_of 16 c \<noteq> None
      | _ \<Rightarrow> False)"

definition effective_base :: "nat \<Rightarrow> char list \<Rightarrow> nat" where
  "effective_base base s =
     (if base = 0 then
        (if has_hex_prefix s then 16
         else if (case s of [] \<Rightarrow> False | a # _ \<Rightarrow> a = CHR ''0'') then 8
         else 10)
      else base)"

definition ULLONG_MAX :: nat where
  "ULLONG_MAX = 2 ^ 64 - 1"

definition strtoull :: "char list \<Rightarrow> nat \<Rightarrow> u64 \<times> nat \<times> bool" where
  "strtoull nptr base =
     (let ws = length (takeWhile isspace nptr);
          s1 = drop ws nptr;
          (neg, sg) = sign_of s1;
          s2 = drop sg s1;
          px = (if (base = 0 \<or> base = 16) \<and> has_hex_prefix s2 then 2 else 0);
          (v, n) = scan_digits (effective_base base s2) (drop px s2) 0 0
      in if n = 0 then (0, 0, False)
         else if v > ULLONG_MAX then (of_nat ULLONG_MAX, ws + sg + px + n, True)
         else ((if neg then - of_nat v else of_nat v), ws + sg + px + n, False))"

section \<open>VMCOREINFO\<close>

text \<open>
  \<^verbatim>\<open>struct vmcoreinfo\<close>. The field \<open>osrelease\<close> holds the bytes that \<^verbatim>\<open>memcpy\<close> put
  at the start of the array, before the NUL that the parser writes after them; the C
  string in the array is \<open>c_string\<close> of them.
\<close>

record vmcoreinfo =
  osrelease :: "char list"
  page_size :: u64
  kaslr_offset :: u64
  swapper_pg_dir :: u64
  pgtable_l5_enabled :: bool

definition c_string :: "char list \<Rightarrow> char list" where
  "c_string bytes = takeWhile (\<lambda>c. c \<noteq> CHR 0x00) bytes"

text \<open>
  \<^verbatim>\<open>linematch\<close>: \<^verbatim>\<open>strncmp\<close> over the length of a prefix that contains no NUL is
  equality of the first bytes; on a match the line pointer moves past the prefix.
\<close>

definition linematch :: "char list \<Rightarrow> char list \<Rightarrow> char list option" where
  "linematch line prefix =
     (if take (length prefix) line = prefix then Some (drop (length prefix) line) else None)"

text \<open>
  \<^verbatim>\<open>line_to_u64\<close>: \<open>line\<close> is the memory from the pointer \<^verbatim>\<open>line\<close> on and \<open>newline\<close>
  the offset of the pointer \<^verbatim>\<open>newline\<close> from it.
\<close>

definition line_to_u64 :: "char list \<Rightarrow> nat \<Rightarrow> nat \<Rightarrow> drgn_error + u64" where
  "line_to_u64 line newline base =
     (case strtoull line base of
        (v, end, erange) \<Rightarrow>
          if erange then
            Inl (drgn_error_create DRGN_ERROR_OVERFLOW ''number in VMCOREINFO is too large'')
          else if end = 0 \<or> end \<noteq> newline then
            Inl (drgn_error_create DRGN_ERROR_OVERFLOW ''number in VMCOREINFO is invalid'')
          else Inr v)"

text \<open>\<^verbatim>\<open>memchr\<close>: the offset of the first occurrence of a byte, if there is one.\<close>

fun memchr :: "char list \<Rightarrow> char \<Rightarrow> nat option" where
  "memchr [] c = None"
| "memchr (x # xs) c = (if x = c then Some 0 else map_option Suc (memchr xs c))"

text \<open>
  The body of the parser's loop for one line. \<open>mem\<close> is the memory from the start of
  the line on (the rest of the descriptor and whatever follows it), \<open>nl\<close> the offset
  of the line's newline, \<open>osz\<close> is \<^verbatim>\<open>sizeof(ret->osrelease)\<close>, whose declaration is in a
  header outside the source at hand.
\<close>

definition parse_vmcoreinfo_line ::
  "nat \<Rightarrow> char list \<Rightarrow> nat \<Rightarrow> vmcoreinfo \<Rightarrow> drgn_error + vmcoreinfo" where
  "parse_vmcoreinfo_line osz mem nl ret =
     (case linematch mem ''OSRELEASE='' of
        Some line \<Rightarrow>
          if nl - 10 \<ge> osz then
            Inl (drgn_error_create DRGN_ERROR_OTHER ''OSRELEASE in VMCOREINFO is too long'')
          else Inr (ret\<lparr>osrelease := take (nl - 10) line\<rparr>)
      | None \<Rightarrow>
     (case linematch mem ''PAGESIZE='' of
        Some line \<Rightarrow>
          (case line_to_u64 line (nl - 9) 0 of
             Inl err \<Rightarrow> Inl err
           | Inr v \<Rightarrow> Inr (ret\<lparr>page_size := v\<rparr>))
      | None \<Rightarrow>
     (case linematch mem ''KERNELOFFSET='' of
        Some line \<Rightarrow>
          (case line_to_u64 line (nl - 13) 16 of
             Inl err \<Rightarrow> Inl err
           | Inr v \<Rightarrow> Inr (ret\<lparr>kaslr_offset := v\<rparr>))
      | None \<Rightarrow>
     (case linematch mem ''SYMBOL(swapper_pg_dir)='' of
        Some line \<Rightarrow>
          (case line_to_u64 line (nl - 23) 16 of
             Inl err \<Rightarrow> Inl err
           | Inr v \<Rightarrow> Inr (ret\<lparr>swapper_pg_dir := v\<rparr>))
      | None \<Rightarrow>
     (case linematch mem ''NUMBER(pgtable_l5_enabled)='' of
        Some line \<Rightarrow>
          (case line_to_u64 line (nl - 27) 0 of
             Inl err \<Rightarrow> Inl err
           | Inr tmp \<Rightarrow> Inr (ret\<lparr>pgtable_l5_enabled := (tmp \<noteq> 0)\<rparr>))
      | None \<Rightarrow> Inr ret)))))"

lemma memchr_less: "memchr xs c = Some i \<Longrightarrow> i < length xs"
  by (induction xs arbitrary: i) (auto split: if_splits)

text \<open>
  The loop \<^verbatim>\<open>while (line < end)\<close>: \<open>rest\<close> is the descriptor from \<^verbatim>\<open>line\<close> to
  \<^verbatim>\<open>end\<close>, \<open>tail\<close> the memory after the descriptor.
\<close>

function parse_vmcoreinfo_loop ::
  "nat \<Rightarrow> char list \<Rightarrow> char list \<Rightarrow> vmcoreinfo \<Rightarrow> drgn_error + vmcoreinfo" where
  "parse_vmcoreinfo_loop osz rest tail ret =
     (if rest = [] then Inr ret
      else
        (case memchr rest (CHR 0x0A) of
           None \<Rightarrow> Inr ret
         | Some nl \<Rightarrow>
             (case parse_vmcoreinfo_line osz (rest @ tail) nl ret of
                Inl err \<Rightarrow> Inl err
              | Inr ret' \<Rightarrow> parse_vmcoreinfo_loop osz (drop (Suc nl) rest) tail ret')))"
  by pat_completeness auto
termination
  by (relation "measure (\<lambda>(osz, rest, tail, ret). length rest)")
     (auto dest: memchr_less)

text \<open>
  \<^verbatim>\<open>parse_vmcoreinfo\<close>. \<open>ret\<close> is the record the caller passes in: the parser resets
  four of its fields and leaves \<open>swapper_pg_dir\<close> as it finds it.
\<close>

definition osrelease_unset :: "vmcoreinfo \<Rightarrow> bool" where
  "osrelease_unset ret = (case osrelease ret of [] \<Rightarrow> True | c # _ \<Rightarrow> c = CHR 0x00)"

definition parse_vmcoreinfo ::
  "nat \<Rightarrow> char list \<Rightarrow> char list \<Rightarrow> vmcoreinfo \<Rightarrow> drgn_error + vmcoreinfo" where
  "parse_vmcoreinfo osz desc tail ret0 =
     (case parse_vmcoreinfo_loop osz desc tail
             (ret0\<lparr>osrelease := [], page_size := 0, kaslr_offset := 0,
                   pgtable_l5_enabled := False\<rparr>) of
        Inl err \<Rightarrow> Inl err
      | Inr ret \<Rightarrow>
          if osrelease_unset ret then
            Inl (drgn_error_create DRGN_ERROR_OTHER ''VMCOREINFO does not contain valid OSRELEASE'')
          else if page_size ret = 0 then
            Inl (drgn_error_create DRGN_ERROR_OTHER ''VMCOREINFO does not contain valid PAGESIZE'')
          else if swapper_pg_dir ret = 0 then
            Inl (drgn_error_create DRGN_ERROR_OTHER
                   ''VMCOREINFO does not contain valid swapper_pg_dir'')
          else Inr ret)"

text \<open>The property of a page size that the specification asks for.\<close>

definition is_power_of_two :: "u64 \<Rightarrow> bool" where
  "is_power_of_two w \<longleftrightarrow> w \<noteq> 0 \<and> w AND (w - 1) = 0"

section \<open>The VMCOREINFO note read from physical memory\<close>

text \<open>
  A 32-bit field of four bytes, most significant byte first, and the load of such a field
  from the start of a byte sequence in either byte order (0 when fewer than four bytes
  are there: the callers check the bounds first).
\<close>

definition be32 :: "char \<Rightarrow> char \<Rightarrow> char \<Rightarrow> char \<Rightarrow> u32" where
  "be32 b0 b1 b2 b3 =
     of_nat (((of_char b0 * 256 + of_char b1) * 256 + of_char b2) * 256 + of_char b3)"

definition load_u32 :: "bool \<Rightarrow> char list \<Rightarrow> u32" where
  "load_u32 little_endian bs =
     (case bs of
        b0 # b1 # b2 # b3 # _ \<Rightarrow> if little_endian then be32 b3 b2 b1 b0 else be32 b0 b1 b2 b3
      | _ \<Rightarrow> 0)"

text \<open>
  \<^verbatim>\<open>read_vmcoreinfo_fallback\<close>. What the environment does is passed in: the outcome of
  opening and scanning \<^verbatim>\<open>/sys/kernel/vmcoreinfo\<close>, whether \<^verbatim>\<open>malloc\<close> succeeds, and the
  outcome of the one call of \<^verbatim>\<open>drgn_program_read_memory\<close> (an error, or the \<open>sz\<close> bytes
  at the physical address). The note header is read in the host's byte order. The
  operands of the check's \<^verbatim>\<open>||\<close> are evaluated from the left, and the first that holds
  decides.
\<close>

datatype sysfs_vmcoreinfo = Fopen_failed | Fscanf_failed | Scanned u64 nat

definition read_vmcoreinfo_fallback ::
  "bool \<Rightarrow> sysfs_vmcoreinfo \<Rightarrow> bool \<Rightarrow> drgn_error + char list \<Rightarrow> nat \<Rightarrow> char list \<Rightarrow>
   vmcoreinfo \<Rightarrow> drgn_error + vmcoreinfo" where
  "read_vmcoreinfo_fallback host_little_endian file malloc_ok read_memory osz tail vmcoreinfo0 =
     (case file of
        Fopen_failed \<Rightarrow> Inl (drgn_error_create DRGN_ERROR_OS ''fopen'')
      | Fscanf_failed \<Rightarrow>
          Inl (drgn_error_create DRGN_ERROR_OTHER ''could not parse /sys/kernel/vmcoreinfo'')
      | Scanned address sz \<Rightarrow>
          if \<not> malloc_ok then Inl drgn_enomem
          else
            (case read_memory of
               Inl err \<Rightarrow> Inl err
             | Inr buf \<Rightarrow>
                 (let n_namesz = load_u32 host_little_endian buf;
                      n_descsz = load_u32 host_little_endian (drop 4 buf);
                      invalid = Inl (drgn_error_create DRGN_ERROR_OTHER ''VMCOREINFO is invalid'')
                  in if sz < 24 then invalid
                     else if n_namesz \<noteq> 11 then invalid
                     else if take 10 (drop 12 buf) \<noteq> ''VMCOREINFO'' then invalid
                     else if unat n_descsz > sz - 24 then invalid
                     else parse_vmcoreinfo osz (take (unat n_descsz) (drop 24 buf))
                            (drop (24 + unat n_descsz) buf @ tail) vmcoreinfo0)))"

section \<open>Numerals, as the claims read them\<close>

text \<open>
  The reading of a numeral that the claims about number bases are compared with: the
  value of a digit string in positional notation, and the numeral forms that a base
  admits. Base 16 admits an optional \<^verbatim>\<open>0x\<close> or \<^verbatim>\<open>0X\<close>; base 0 stands for the C library's
  automatic base (hexadecimal after \<^verbatim>\<open>0x\<close>, octal after a leading \<^verbatim>\<open>0\<close>, decimal
  otherwise).
\<close>

definition digit_value :: "char \<Rightarrow> nat" where
  "digit_value c = (case digit_of 36 c of None \<Rightarrow> 0 | Some d \<Rightarrow> d)"

definition digits_value :: "nat \<Rightarrow> char list \<Rightarrow> nat" where
  "digits_value b ds = foldl (\<lambda>acc c. acc * b + digit_value c) 0 ds"

definition digits_in :: "nat \<Rightarrow> char list \<Rightarrow> nat option" where
  "digits_in b ds =
     (if ds \<noteq> [] \<and> list_all (\<lambda>c. digit_of b c \<noteq> None) ds then Some (digits_value b ds)
      else None)"

definition hex_prefixed :: "char list \<Rightarrow> bool" where
  "hex_prefixed t \<longleftrightarrow> take 2 t = ''0x'' \<or> take 2 t = ''0X''"

definition numeral_value :: "nat \<Rightarrow> char list \<Rightarrow> nat option" where
  "numeral_value base t =
     (if (base = 0 \<or> base = 16) \<and> hex_prefixed t then digits_in 16 (drop 2 t)
      else if base = 0 then (if take 1 t = ''0'' then digits_in 8 t else digits_in 10 t)
      else digits_in base t)"

definition converted :: "nat \<Rightarrow> drgn_error + u64" where
  "converted v =
     (if v \<le> ULLONG_MAX then Inr (of_nat v)
      else Inl (drgn_error_create DRGN_ERROR_OVERFLOW ''number in VMCOREINFO is too large''))"

definition number_too_large :: drgn_error where
  "number_too_large = drgn_error_create DRGN_ERROR_OVERFLOW ''number in VMCOREINFO is too large''"

section \<open>The binary buffer\<close>

text \<open>
  Modelled from the spec: the bounds-checked sequential reader of \<^verbatim>\<open>binary_buffer.h\<close>, which
  is not part of the source at hand. A buffer is constructed over a base, a length and
  the byte order of its integers (\<open>little_endian\<close>); every read checks the bounds before
  it advances the cursor and otherwise fails through the buffer's error callback. The
  buffer is the byte list \<open>data\<close>, the cursor the offset \<open>pos\<close>; a read returns its
  value and the new cursor. The callback of the one buffer of this file is
  \<^verbatim>\<open>depmod_index_buffer_error\<close> (in the source), which makes an error of kind
  \<^verbatim>\<open>DRGN_ERROR_OTHER\<close>.
\<close>

definition depmod_index_buffer_error :: "string \<Rightarrow> drgn_error" where
  "depmod_index_buffer_error message = drgn_error_create DRGN_ERROR_OTHER message"

definition binary_buffer_check_bounds :: "char list \<Rightarrow> nat \<Rightarrow> nat \<Rightarrow> bool" where
  "binary_buffer_check_bounds data pos n \<longleftrightarrow> n \<le> length data - pos"

definition binary_buffer_next_u8 :: "char list \<Rightarrow> nat \<Rightarrow> drgn_error + (u8 \<times> nat)" where
  "binary_buffer_next_u8 data pos =
     (if binary_buffer_check_bounds data pos 1
      then Inr (of_char (data ! pos), pos + 1)
      else Inl (depmod_index_buffer_error ''expected at least 1 byte''))"

definition binary_buffer_next_u32 ::
  "bool \<Rightarrow> char list \<Rightarrow> nat \<Rightarrow> drgn_error + (u32 \<times> nat)" where
  "binary_buffer_next_u32 little_endian data pos =
     (if binary_buffer_check_bounds data pos 4
      then Inr (load_u32 little_endian (drop pos data), pos + 4)
      else Inl (depmod_index_buffer_error ''expected at least 4 bytes''))"

definition binary_buffer_skip :: "char list \<Rightarrow> nat \<Rightarrow> nat \<Rightarrow> drgn_error + nat" where
  "binary_buffer_skip data pos n =
     (if binary_buffer_check_bounds data pos n
      then Inr (pos + n)
      else Inl (depmod_index_buffer_error ''expected at least n bytes''))"

definition binary_buffer_next_string ::
  "char list \<Rightarrow> nat \<Rightarrow> drgn_error + (char list \<times> nat)" where
  "binary_buffer_next_string data pos =
     (case memchr (drop pos data) (CHR 0x00) of
        None \<Rightarrow> Inl (depmod_index_buffer_error ''expected null-terminated string'')
      | Some n \<Rightarrow> Inr (take n (drop pos data), pos + n + 1))"

section \<open>The depmod index\<close>

text \<open>
  \<^verbatim>\<open>depmod_index_validate\<close>. \<^verbatim>\<open>depmod_index_buffer_init\<close> constructs the buffer with
  \<^verbatim>\<open>false\<close> for \<open>little_endian\<close>, here and in \<^verbatim>\<open>depmod_index_find\<close>.
\<close>

definition depmod_index_validate :: "char list \<Rightarrow> drgn_error option" where
  "depmod_index_validate data =
     (case binary_buffer_next_u32 False data 0 of
        Inl err \<Rightarrow> Some err
      | Inr (magic, pos) \<Rightarrow>
          if magic \<noteq> 0xb007f457 then Some (depmod_index_buffer_error ''invalid magic'')
          else
            (case binary_buffer_next_u32 False data pos of
               Inl err \<Rightarrow> Some err
             | Inr (version, pos') \<Rightarrow>
                 if version \<noteq> 0x00020001
                 then Some (depmod_index_buffer_error ''unknown version'')
                 else None))"

text \<open>
  \<^verbatim>\<open>depmod_index_init\<close>, with what the file system does passed in. It returns an error,
  or the mapped file that \<^verbatim>\<open>depmod->addr\<close> and \<^verbatim>\<open>depmod->len\<close> then describe, and the
  system calls on the file and its mapping as a trace.
\<close>

datatype syscall = Sys_open | Sys_fstat | Sys_mmap | Sys_munmap | Sys_close

datatype modules_dep_bin =
    Open_fails | Fstat_fails | Size_out_of_range | Mmap_fails | Maps "char list"

definition depmod_index_init :: "modules_dep_bin \<Rightarrow> (drgn_error + char list) \<times> syscall list" where
  "depmod_index_init dep =
     (case dep of
        Open_fails \<Rightarrow> (Inl (drgn_error_create DRGN_ERROR_OS ''open''), [Sys_open])
      | Fstat_fails \<Rightarrow>
          (Inl (drgn_error_create DRGN_ERROR_OS ''fstat''), [Sys_open, Sys_fstat, Sys_close])
      | Size_out_of_range \<Rightarrow> (Inl drgn_enomem, [Sys_open, Sys_fstat, Sys_close])
      | Mmap_fails \<Rightarrow>
          (Inl (drgn_error_create DRGN_ERROR_OS ''mmap''),
           [Sys_open, Sys_fstat, Sys_mmap, Sys_close])
      | Maps data \<Rightarrow>
          (case depmod_index_validate data of
             Some err \<Rightarrow> (Inl err, [Sys_open, Sys_fstat, Sys_mmap, Sys_munmap, Sys_close])
           | None \<Rightarrow> (Inr data, [Sys_open, Sys_fstat, Sys_mmap, Sys_close])))"

definition INDEX_NODE_MASK :: u32 where "INDEX_NODE_MASK = 0x0fffffff"
definition INDEX_NODE_CHILDS :: u32 where "INDEX_NODE_CHILDS = 0x20000000"
definition INDEX_NODE_VALUES :: u32 where "INDEX_NODE_VALUES = 0x40000000"
definition INDEX_NODE_PREFIX :: u32 where "INDEX_NODE_PREFIX = 0x80000000"

text \<open>
  One iteration of the loop of \<^verbatim>\<open>depmod_index_find\<close>: it fails, jumps to
  \<^verbatim>\<open>not_found\<close>, continues with a new cursor and the rest of the name, or breaks with
  the node's tagged offset and the cursor. \<open>name\<close> holds the characters of the C string
  before its NUL. The lengths passed to \<^verbatim>\<open>binary_buffer_skip\<close> are computed in \<^verbatim>\<open>int\<close>
  and converted to a 64-bit \<^verbatim>\<open>size_t\<close>.
\<close>

datatype depmod_step =
    Step_error drgn_error
  | Step_not_found
  | Step_continue nat "char list"
  | Step_break u32 nat

definition size_t_of_int :: "int \<Rightarrow> nat" where
  "size_t_of_int i = unat (word_of_int i :: u64)"

definition depmod_find_children ::
  "char list \<Rightarrow> u32 \<Rightarrow> nat \<Rightarrow> char list \<Rightarrow> depmod_step" where
  "depmod_find_children data offset pos name =
     (if offset AND INDEX_NODE_CHILDS \<noteq> 0 then
        (case binary_buffer_next_u8 data pos of
           Inl err \<Rightarrow> Step_error err
         | Inr (first_byte, pos1) \<Rightarrow>
        (case binary_buffer_next_u8 data pos1 of
           Inl err \<Rightarrow> Step_error err
         | Inr (last_byte, pos2) \<Rightarrow>
        (case name of
           c # name' \<Rightarrow>
             (let cur = (of_char c :: u8) in
              if cur < first_byte \<or> cur > last_byte then Step_not_found
              else
                (case binary_buffer_skip data pos2 (size_t_of_int (4 * (uint cur - uint first_byte))) of
                   Inl err \<Rightarrow> Step_error err
                 | Inr pos3 \<Rightarrow> Step_continue pos3 name'))
         | [] \<Rightarrow>
             (case binary_buffer_skip data pos2
                     (size_t_of_int (4 * (uint last_byte - uint first_byte + 1))) of
                Inl err \<Rightarrow> Step_error err
              | Inr pos3 \<Rightarrow> Step_break offset pos3))))
      else if name \<noteq> [] then Step_not_found
      else Step_break offset pos)"

definition depmod_find_step :: "char list \<Rightarrow> nat \<Rightarrow> char list \<Rightarrow> depmod_step" where
  "depmod_find_step data pos name =
     (case binary_buffer_next_u32 False data pos of
        Inl err \<Rightarrow> Step_error err
      | Inr (offset, _) \<Rightarrow>
          if unat (offset AND INDEX_NODE_MASK) > length data
          then Step_error (depmod_index_buffer_error ''offset is out of bounds'')
          else
            (let pos1 = unat (offset AND INDEX_NODE_MASK) in
             if offset AND INDEX_NODE_PREFIX \<noteq> 0 then
               (case binary_buffer_next_string data pos1 of
                  Inl err \<Rightarrow> Step_error err
                | Inr (prefix, pos2) \<Rightarrow>
                    if take (length prefix) name \<noteq> prefix then Step_not_found
                    else depmod_find_children data offset pos2 (drop (length prefix) name))
             else depmod_find_children data offset pos1 name))"

lemma depmod_find_children_shorter:
  "depmod_find_children data offset pos name = Step_continue pos' name' \<Longrightarrow>
     length name' < length name"
  by (auto simp: depmod_find_children_def Let_def split: if_splits sum.splits list.splits)

lemma depmod_find_step_shorter:
  "depmod_find_step data pos name = Step_continue pos' name' \<Longrightarrow> length name' < length name"
  by (auto simp: depmod_find_step_def Let_def split: if_splits sum.splits
           dest!: depmod_find_children_shorter; arith)

function depmod_find_loop ::
  "char list \<Rightarrow> nat \<Rightarrow> char list \<Rightarrow> drgn_error + (u32 \<times> nat) option" where
  "depmod_find_loop data pos name =
     (case depmod_find_step data pos name of
        Step_error err \<Rightarrow> Inl err
      | Step_not_found \<Rightarrow> Inr None
      | Step_continue pos' name' \<Rightarrow> depmod_find_loop data pos' name'
      | Step_break offset pos' \<Rightarrow> Inr (Some (offset, pos')))"
  by pat_completeness auto
termination
  by (relation "measure (\<lambda>(data, pos, name). length name)")
     (auto dest: depmod_find_step_shorter)

text \<open>
  \<^verbatim>\<open>depmod_index_find\<close>. The result is an error, or the outputs \<^verbatim>\<open>*path_ret\<close> (\<open>None\<close>
  for \<^verbatim>\<open>NULL\<close>, else the bytes of the path) and \<^verbatim>\<open>*len_ret\<close>; \<open>len_ret\<close> is what the
  caller's variable holds before the call, and \<^verbatim>\<open>not_found\<close> does not write it.
\<close>

definition expected_colon :: string where
  "expected_colon = ''expected string containing ':'' @ [CHR 0x27]"

definition depmod_index_find ::
  "char list \<Rightarrow> char list \<Rightarrow> nat \<Rightarrow> drgn_error + (char list option \<times> nat)" where
  "depmod_index_find data name len_ret =
     (case depmod_find_loop data 8 name of
        Inl err \<Rightarrow> Inl err
      | Inr None \<Rightarrow> Inr (None, len_ret)
      | Inr (Some (offset, pos)) \<Rightarrow>
          if offset AND INDEX_NODE_VALUES = 0 then Inr (None, len_ret)
          else
            (case binary_buffer_next_u32 False data pos of
               Inl err \<Rightarrow> Inl err
             | Inr (value_count, pos1) \<Rightarrow>
                 if value_count = 0 then Inr (None, len_ret)
                 else
                   (case binary_buffer_skip data pos1 4 of
                      Inl err \<Rightarrow> Inl err
                    | Inr pos2 \<Rightarrow>
                        (case memchr (drop pos2 data) (CHR '':'') of
                           None \<Rightarrow>
                             Inl (depmod_index_buffer_error expected_colon)
                         | Some n \<Rightarrow> Inr (Some (take n (drop pos2 data)), n)))))"

section \<open>The trie that an index stores\<close>

text \<open>
  The data model of the specification: a node has a prefix, an optional dense child table
  (the first byte and one child per byte of the range; a hole is a child with no prefix,
  no children and no values) and an optional value list of records (priority, path,
  dependencies). \<open>trie_walk\<close> consumes the prefixes byte for byte and descends by the
  next byte of the name; it returns the value list of the node where the name is
  exhausted. \<open>trie_lookup\<close> is the path of the first value there.
\<close>

datatype trie =
  Trie (trie_prefix: "char list") (trie_children: "(nat \<times> trie list) option")
       (trie_values: "(u32 \<times> char list \<times> char list) list option")

fun trie_walk :: "trie \<Rightarrow> char list \<Rightarrow> (u32 \<times> char list \<times> char list) list option option"
  and slots_walk ::
    "trie list \<Rightarrow> nat \<Rightarrow> char list \<Rightarrow> (u32 \<times> char list \<times> char list) list option option"
  where
  "trie_walk (Trie p ch vs) name =
     (if take (length p) name \<noteq> p then None
      else
        (case drop (length p) name of
           [] \<Rightarrow> Some vs
         | c # cs \<Rightarrow>
             (case ch of
                None \<Rightarrow> None
              | Some (first_byte, slots) \<Rightarrow>
                  if of_char c < first_byte \<or> first_byte + length slots \<le> of_char c then None
                  else slots_walk slots (of_char c - first_byte) cs)))"
| "slots_walk [] i name = None"
| "slots_walk (s # ss) i name = (if i = 0 then trie_walk s name else slots_walk ss (i - 1) name)"

definition trie_lookup :: "trie \<Rightarrow> char list \<Rightarrow> char list option" where
  "trie_lookup t name =
     (case trie_walk t name of
        Some (Some ((priority, path, deps) # _)) \<Rightarrow> Some path
      | _ \<Rightarrow> None)"

text \<open>
  A well-formed index: the tagged offset \<open>t\<close> addresses, within the file, the
  serialised form of a node (prefix string, child table, value list, as its flags say),
  and so do the child offsets of its table.
\<close>

definition bytes_at :: "char list \<Rightarrow> nat \<Rightarrow> char list \<Rightarrow> bool" where
  "bytes_at data pos bs \<longleftrightarrow> take (length bs) (drop pos data) = bs"

fun records_at :: "char list \<Rightarrow> nat \<Rightarrow> (u32 \<times> char list \<times> char list) list \<Rightarrow> bool" where
  "records_at data pos [] = True"
| "records_at data pos ((priority, path, deps) # vals) =
     (pos + 4 \<le> length data \<and> load_u32 False (drop pos data) = priority \<and>
      bytes_at data (pos + 4) (path @ CHR '':'' # deps @ [CHR 0x00]) \<and>
      CHR '':'' \<notin> set path \<and> CHR 0x00 \<notin> set path \<and> CHR 0x00 \<notin> set deps \<and>
      records_at data (pos + 4 + length path + 1 + length deps + 1) vals)"

definition values_at ::
  "char list \<Rightarrow> nat \<Rightarrow> (u32 \<times> char list \<times> char list) list \<Rightarrow> bool" where
  "values_at data pos vals \<longleftrightarrow>
     pos + 4 \<le> length data \<and> length vals < 2 ^ 32 \<and>
     load_u32 False (drop pos data) = of_nat (length vals) \<and> records_at data (pos + 4) vals"

fun trie_at :: "char list \<Rightarrow> u32 \<Rightarrow> trie \<Rightarrow> bool"
  and slots_at :: "char list \<Rightarrow> nat \<Rightarrow> trie list \<Rightarrow> bool" where
  "trie_at data t (Trie p ch vs) =
     (let off = unat (t AND INDEX_NODE_MASK);
          pos1 = (if t AND INDEX_NODE_PREFIX \<noteq> 0 then off + length p + 1 else off);
          pos2 = (case ch of None \<Rightarrow> pos1 | Some (first_byte, slots) \<Rightarrow> pos1 + 2 + 4 * length slots)
      in off \<le> length data \<and>
         (if t AND INDEX_NODE_PREFIX \<noteq> 0
          then bytes_at data off (p @ [CHR 0x00]) \<and> CHR 0x00 \<notin> set p
          else p = []) \<and>
         (case ch of
            None \<Rightarrow> t AND INDEX_NODE_CHILDS = 0
          | Some (first_byte, slots) \<Rightarrow>
              t AND INDEX_NODE_CHILDS \<noteq> 0 \<and> slots \<noteq> [] \<and> first_byte + length slots \<le> 256 \<and>
              pos1 + 2 \<le> length data \<and> of_char (data ! pos1) = first_byte \<and>
              of_char (data ! (pos1 + 1)) = first_byte + length slots - 1 \<and>
              slots_at data (pos1 + 2) slots) \<and>
         (case vs of
            None \<Rightarrow> t AND INDEX_NODE_VALUES = 0
          | Some vals \<Rightarrow> t AND INDEX_NODE_VALUES \<noteq> 0 \<and> values_at data pos2 vals))"
| "slots_at data pos [] = True"
| "slots_at data pos (s # ss) =
     (pos + 4 \<le> length data \<and> trie_at data (load_u32 False (drop pos data)) s \<and>
      slots_at data (pos + 4) ss)"

definition depmod_well_formed :: "char list \<Rightarrow> trie \<Rightarrow> bool" where
  "depmod_well_formed data t \<longleftrightarrow>
     12 \<le> length data \<and> trie_at data (load_u32 False (drop 8 data)) t"

text \<open>Where a node's child table and its value list start.\<close>

definition node_table_pos :: "u32 \<Rightarrow> char list \<Rightarrow> nat" where
  "node_table_pos t p =
     (if t AND INDEX_NODE_PREFIX \<noteq> 0 then unat (t AND INDEX_NODE_MASK) + length p + 1
      else unat (t AND INDEX_NODE_MASK))"

definition node_values_pos :: "u32 \<Rightarrow> char list \<Rightarrow> (nat \<times> trie list) option \<Rightarrow> nat" where
  "node_values_pos t p ch =
     (case ch of
        None \<Rightarrow> node_table_pos t p
      | Some (first_byte, slots) \<Rightarrow> node_table_pos t p + 2 + 4 * length slots)"

text \<open>The outcome of the loop, compared with the outcome of the walk.\<close>

definition walk_agrees ::
  "char list \<Rightarrow> (u32 \<times> char list \<times> char list) list option option \<Rightarrow>
   drgn_error + (u32 \<times> nat) option \<Rightarrow> bool" where
  "walk_agrees data w r \<longleftrightarrow>
     (case w of
        None \<Rightarrow> r = Inr None
      | Some vs \<Rightarrow>
          \<exists>t pos. r = Inr (Some (t, pos)) \<and>
            (case vs of
               None \<Rightarrow> t AND INDEX_NODE_VALUES = 0
             | Some vals \<Rightarrow> t AND INDEX_NODE_VALUES \<noteq> 0 \<and> values_at data pos vals))"

text \<open>
  The states at the head of the loop that a lookup of \<open>name\<close> passes through: the
  cursor and the rest of the name.
\<close>

inductive depmod_reaches :: "char list \<Rightarrow> char list \<Rightarrow> nat \<Rightarrow> char list \<Rightarrow> bool"
  for data :: "char list" and name :: "char list" where
  start: "depmod_reaches data name 8 name"
| continue: "depmod_reaches data name pos nm \<Longrightarrow>
     depmod_find_step data pos nm = Step_continue pos' nm' \<Longrightarrow>
     depmod_reaches data name pos' nm'"

text \<open>
  An example index: the modules \<^verbatim>\<open>ab\<close> (at \<^verbatim>\<open>x/ab.ko\<close>) and \<^verbatim>\<open>ac\<close> (at
  \<^verbatim>\<open>y/ac.ko.xz\<close>) under a root with the prefix \<^verbatim>\<open>a\<close> and a child table for
  \<^verbatim>\<open>b\<close> to \<^verbatim>\<open>c\<close>.
\<close>

definition example_index :: "char list" where
  "example_index = [CHR 0xb0, CHR 0x07, CHR 0xf4, CHR 0x57, CHR 0x00, CHR 0x02, CHR 0x00, CHR 0x01,
     CHR 0xA0, CHR 0x00, CHR 0x00, CHR 0x0C] @ ''a'' @ [CHR 0x00] @ ''bc'' @
     [CHR 0x40, CHR 0x00, CHR 0x00, CHR 0x18, CHR 0x40, CHR 0x00, CHR 0x00, CHR 0x29,
      CHR 0x00, CHR 0x00, CHR 0x00, CHR 0x01, CHR 0x00, CHR 0x00, CHR 0x00, CHR 0x00] @
     ''x/ab.ko:'' @ [CHR 0x00] @
     [CHR 0x00, CHR 0x00, CHR 0x00, CHR 0x01, CHR 0x00, CHR 0x00, CHR 0x00, CHR 0x00] @
     ''y/ac.ko.xz:'' @ [CHR 0x00]"

definition example_trie :: trie where
  "example_trie = Trie ''a'' (Some (98, [Trie [] None (Some [(0, ''x/ab.ko'', [])]),
      Trie [] None (Some [(0, ''y/ac.ko.xz'', [])])])) None"

section \<open>The typed-object collaborator\<close>

text \<open>
  The operations of the typed-object model that the kernel-walk backends call, as a
  record of functions over an abstract type of objects. Each returns an error or its
  result; an operation that fails leaves its destination as it was. \<^verbatim>\<open>container_of\<close> is
  only called with the type \<^verbatim>\<open>struct module\<close>.
\<close>

record 'o object_ops =
  drgn_object_member_dereference :: "'o \<Rightarrow> string \<Rightarrow> drgn_error + 'o"
  drgn_object_member :: "'o \<Rightarrow> string \<Rightarrow> drgn_error + 'o"
  drgn_object_read :: "'o \<Rightarrow> drgn_error + 'o"
  drgn_object_read_unsigned :: "'o \<Rightarrow> drgn_error + u64"
  drgn_object_read_c_string :: "'o \<Rightarrow> drgn_error + string"
  drgn_object_container_of :: "'o \<Rightarrow> string \<Rightarrow> drgn_error + 'o"
  drgn_object_subscript :: "'o \<Rightarrow> u64 \<Rightarrow> drgn_error + 'o"

section \<open>The module iterator\<close>

text \<open>
  \<^verbatim>\<open>/proc/modules\<close> as a stream: each \<^verbatim>\<open>getline\<close> returns a line, or fails at the end of
  the file or with an I/O error. The iterator's object slots exist in the kernel-walk
  backend only; \<open>modules_file\<close> is \<open>None\<close> there.
\<close>

datatype proc_modules = Eof | Io_error | Line "char list" proc_modules

record 'o kernel_module_iterator =
  it_name :: "char list"
  modules_file :: "proc_modules option"
  it_start :: u64
  it_end :: u64
  it_mod :: 'o
  it_node :: 'o
  tmp1 :: 'o
  tmp2 :: 'o
  tmp3 :: 'o
  head :: u64

text \<open>
  \<^verbatim>\<open>sscanf\<close> with the format \<^verbatim>\<open>"%lu %*s %*s %*s %lx"\<close>, as the GNU C library converts:
  a conversion skips white space first, the unsigned conversions accept what
  \<^verbatim>\<open>strtoull\<close> accepts in base 10 and 16, and \<^verbatim>\<open>%*s\<close> skips a non-empty run of
  characters that are not white space. The result is the two values when both are
  assigned (\<^verbatim>\<open>sscanf\<close> returns 2).
\<close>

definition scanf_unsigned :: "nat \<Rightarrow> char list \<Rightarrow> (u64 \<times> char list) option" where
  "scanf_unsigned base s =
     (case strtoull s base of (v, n, erange) \<Rightarrow> if n = 0 then None else Some (v, drop n s))"

definition scanf_skip_string :: "char list \<Rightarrow> char list option" where
  "scanf_skip_string s =
     (case dropWhile isspace s of
        [] \<Rightarrow> None
      | c # cs \<Rightarrow> Some (dropWhile (\<lambda>c. \<not> isspace c) cs))"

definition sscanf_proc_modules :: "char list \<Rightarrow> (u64 \<times> u64) option" where
  "sscanf_proc_modules s =
     (case scanf_unsigned 10 s of
        None \<Rightarrow> None
      | Some (sz, s1) \<Rightarrow>
     (case scanf_skip_string (dropWhile isspace s1) of
        None \<Rightarrow> None
      | Some s2 \<Rightarrow>
     (case scanf_skip_string (dropWhile isspace s2) of
        None \<Rightarrow> None
      | Some s3 \<Rightarrow>
     (case scanf_skip_string (dropWhile isspace s3) of
        None \<Rightarrow> None
      | Some s4 \<Rightarrow>
     (case scanf_unsigned 16 (dropWhile isspace s4) of
        None \<Rightarrow> None
      | Some (start, _) \<Rightarrow> Some (sz, start))))))"

text \<open>
  \<^verbatim>\<open>kernel_module_iterator_next_live\<close>, in two parts: up to the \<^verbatim>\<open>sscanf\<close>, which leaves
  the size in \<^verbatim>\<open>it->end\<close> and the address in \<^verbatim>\<open>it->start\<close>, and then
  \<^verbatim>\<open>it->end += it->start\<close> and the cut of the name at the first space.
\<close>

definition kernel_module_iterator_scan_live ::
  "'o kernel_module_iterator \<Rightarrow> proc_modules \<Rightarrow> drgn_error + ('o kernel_module_iterator \<times> nat)" where
  "kernel_module_iterator_scan_live it f =
     (case f of
        Io_error \<Rightarrow> Inl (drgn_error_create DRGN_ERROR_OS ''getline'')
      | Eof \<Rightarrow> Inl drgn_stop
      | Line ln rest \<Rightarrow>
          (case memchr (c_string ln) (CHR '' '') of
             None \<Rightarrow> Inl (drgn_error_create DRGN_ERROR_OTHER ''could not parse /proc/modules'')
           | Some p \<Rightarrow>
               (case sscanf_proc_modules (drop (Suc p) (c_string ln)) of
                  None \<Rightarrow>
                    Inl (drgn_error_create DRGN_ERROR_OTHER ''could not parse /proc/modules'')
                | Some (sz, start) \<Rightarrow>
                    Inr (it\<lparr>it_name := c_string ln, modules_file := Some rest,
                            it_end := sz, it_start := start\<rparr>, p))))"

definition kernel_module_iterator_next_live ::
  "'o kernel_module_iterator \<Rightarrow> proc_modules \<Rightarrow> drgn_error + 'o kernel_module_iterator" where
  "kernel_module_iterator_next_live it f =
     (case kernel_module_iterator_scan_live it f of
        Inl err \<Rightarrow> Inl err
      | Inr (it1, p) \<Rightarrow>
          Inr (it1\<lparr>it_end := it_end it1 + it_start it1, it_name := take p (it_name it1)\<rparr>))"

text \<open>
  The kernel walk: the step to the next list node and its \<^verbatim>\<open>struct module\<close>; the block
  that sets \<^verbatim>\<open>tmp1\<close> to the base and \<^verbatim>\<open>tmp2\<close> to the size; the two reads, which again
  leave the size in \<^verbatim>\<open>it->end\<close>; and \<^verbatim>\<open>it->end += it->start\<close> with the read of the name.
\<close>

definition next_module :: "'o object_ops \<Rightarrow> 'o kernel_module_iterator \<Rightarrow> drgn_error + ('o \<times> 'o)" where
  "next_module ops it =
     (case drgn_object_member_dereference ops (it_node it) ''next'' of
        Inl err \<Rightarrow> Inl err
      | Inr n1 \<Rightarrow>
     (case drgn_object_read ops n1 of
        Inl err \<Rightarrow> Inl err
      | Inr n2 \<Rightarrow>
     (case drgn_object_read_unsigned ops n2 of
        Inl err \<Rightarrow> Inl err
      | Inr addr \<Rightarrow>
          if addr = head it then Inl drgn_stop
          else
            (case drgn_object_container_of ops n2 ''list'' of
               Inl err \<Rightarrow> Inl err
             | Inr m \<Rightarrow> Inr (n2, m)))))"

definition module_base_and_size ::
  "'o object_ops \<Rightarrow> 'o \<Rightarrow> drgn_error + ('o \<times> 'o)" where
  "module_base_and_size ops m =
     (case drgn_object_member_dereference ops m ''core_layout'' of
        Inr layout \<Rightarrow>
          (case drgn_object_member ops layout ''size'' of
             Inl err \<Rightarrow> Inl err
           | Inr sz \<Rightarrow>
               (case drgn_object_member ops layout ''base'' of
                  Inl err \<Rightarrow> Inl err
                | Inr base \<Rightarrow> Inr (base, sz)))
      | Inl err \<Rightarrow>
          if error_code err = DRGN_ERROR_LOOKUP then
            (case drgn_object_member_dereference ops m ''core_size'' of
               Inl err \<Rightarrow> Inl err
             | Inr sz \<Rightarrow>
                 (case drgn_object_member_dereference ops m ''module_core'' of
                    Inl err \<Rightarrow> Inl err
                  | Inr base \<Rightarrow> Inr (base, sz)))
          else Inl err)"

definition read_range ::
  "'o object_ops \<Rightarrow> 'o kernel_module_iterator \<Rightarrow> 'o \<Rightarrow> 'o \<Rightarrow> 'o \<Rightarrow> 'o \<Rightarrow>
   drgn_error + 'o kernel_module_iterator" where
  "read_range ops it n m base sz =
     (case drgn_object_read_unsigned ops base of
        Inl err \<Rightarrow> Inl err
      | Inr start \<Rightarrow>
          (case drgn_object_read_unsigned ops sz of
             Inl err \<Rightarrow> Inl err
           | Inr e \<Rightarrow>
               Inr (it\<lparr>it_node := n, it_mod := m, tmp1 := base, tmp2 := sz,
                       it_start := start, it_end := e\<rparr>)))"

definition kernel_module_iterator_read_walk ::
  "'o object_ops \<Rightarrow> 'o kernel_module_iterator \<Rightarrow> drgn_error + 'o kernel_module_iterator" where
  "kernel_module_iterator_read_walk ops it =
     (case next_module ops it of
        Inl err \<Rightarrow> Inl err
      | Inr (n, m) \<Rightarrow>
          (case module_base_and_size ops m of
             Inl err \<Rightarrow> Inl err
           | Inr (base, sz) \<Rightarrow> read_range ops it n m base sz))"

definition read_name ::
  "'o object_ops \<Rightarrow> 'o kernel_module_iterator \<Rightarrow> drgn_error + 'o kernel_module_iterator" where
  "read_name ops it1 =
     (let it2 = it1\<lparr>it_end := it_end it1 + it_start it1\<rparr> in
      case drgn_object_member_dereference ops (it_mod it2) ''name'' of
        Inl err \<Rightarrow> Inl err
      | Inr nm \<Rightarrow>
          (case drgn_object_read_c_string ops nm of
             Inl err \<Rightarrow> Inl err
           | Inr name \<Rightarrow> Inr (it2\<lparr>tmp2 := nm, it_name := name\<rparr>)))"

text \<open>
  The iterator before \<^verbatim>\<open>it->end += it->start\<close> (in either backend), and
  \<^verbatim>\<open>kernel_module_iterator_next\<close>.
\<close>

definition kernel_module_iterator_fields ::
  "'o object_ops \<Rightarrow> 'o kernel_module_iterator \<Rightarrow> drgn_error + 'o kernel_module_iterator" where
  "kernel_module_iterator_fields ops it =
     (case modules_file it of
        Some f \<Rightarrow> map_sum id fst (kernel_module_iterator_scan_live it f)
      | None \<Rightarrow> kernel_module_iterator_read_walk ops it)"

definition kernel_module_iterator_next ::
  "'o object_ops \<Rightarrow> 'o kernel_module_iterator \<Rightarrow> drgn_error + 'o kernel_module_iterator" where
  "kernel_module_iterator_next ops it =
     (case modules_file it of
        Some f \<Rightarrow> kernel_module_iterator_next_live it f
      | None \<Rightarrow>
          (case kernel_module_iterator_read_walk ops it of
             Inl err \<Rightarrow> Inl err
           | Inr it1 \<Rightarrow> read_name ops it1))"

section \<open>The section iterator\<close>

text \<open>
  \<^verbatim>\<open>kernel_module_section_iterator_next\<close>. The iterator works on the module iterator's
  slots (\<open>kmod_it\<close>); the live backend, which reads a directory of
  \<^verbatim>\<open>/sys/module\<close>, is a parameter.
\<close>

record ('o, 'd) kernel_module_section_iterator =
  kmod_it :: "'o kernel_module_iterator"
  sections_dir :: "'d option"
  sit_i :: u64
  nsections :: u64
  sit_name :: "char list"

definition section_attr ::
  "'o object_ops \<Rightarrow> ('o, 'd) kernel_module_section_iterator \<Rightarrow> drgn_error + ('o \<times> u64)" where
  "section_attr ops it =
     (if sit_i it \<ge> nsections it then Inl drgn_stop
      else
        (case drgn_object_subscript ops (tmp1 (kmod_it it)) (sit_i it) of
           Inl err \<Rightarrow> Inl err
         | Inr attr \<Rightarrow>
             (case drgn_object_member ops attr ''address'' of
                Inl err \<Rightarrow> Inl err
              | Inr ad \<Rightarrow>
                  (case drgn_object_read_unsigned ops ad of
                     Inl err \<Rightarrow> Inl err
                   | Inr address \<Rightarrow> Inr (attr, address)))))"

definition section_name_holder :: "'o object_ops \<Rightarrow> 'o \<Rightarrow> drgn_error + 'o" where
  "section_name_holder ops attr =
     (case drgn_object_member ops attr ''battr'' of
        Inr battr \<Rightarrow>
          (case drgn_object_member ops battr ''attr'' of
             Inl err \<Rightarrow> Inl err
           | Inr a \<Rightarrow> Inr a)
      | Inl err \<Rightarrow> if error_code err \<noteq> DRGN_ERROR_LOOKUP then Inl err else Inr attr)"

definition read_section_name ::
  "'o object_ops \<Rightarrow> ('o, 'd) kernel_module_section_iterator \<Rightarrow> u64 \<Rightarrow> 'o \<Rightarrow>
   drgn_error + (char list \<times> u64 \<times> ('o, 'd) kernel_module_section_iterator)" where
  "read_section_name ops it address holder =
     (case drgn_object_member ops holder ''name'' of
        Inl err \<Rightarrow> Inl err
      | Inr nm \<Rightarrow>
          (case drgn_object_read_c_string ops nm of
             Inl err \<Rightarrow> Inl err
           | Inr name \<Rightarrow>
               Inr (name, address,
                    it\<lparr>kmod_it := (kmod_it it)\<lparr>tmp2 := holder, tmp3 := nm\<rparr>,
                       sit_i := sit_i it + 1, sit_name := name\<rparr>)))"

definition kernel_module_section_iterator_next ::
  "('d \<Rightarrow> drgn_error + (char list \<times> u64 \<times> 'd)) \<Rightarrow> 'o object_ops \<Rightarrow>
   ('o, 'd) kernel_module_section_iterator \<Rightarrow>
   drgn_error + (char list \<times> u64 \<times> ('o, 'd) kernel_module_section_iterator)" where
  "kernel_module_section_iterator_next next_live ops it =
     (case sections_dir it of
        Some dir \<Rightarrow>
          (case next_live dir of
             Inl err \<Rightarrow> Inl err
           | Inr (name, address, dir') \<Rightarrow> Inr (name, address, it\<lparr>sections_dir := Some dir'\<rparr>))
      | None \<Rightarrow>
          (case section_attr ops it of
             Inl err \<Rightarrow> Inl err
           | Inr (attr, address) \<Rightarrow>
               (case section_name_holder ops attr of
                  Inl err \<Rightarrow> Inl err
                | Inr holder \<Rightarrow> read_section_name ops it address holder)))"

text \<open>
  An example kernel: an object is the text of the expression that leads to it, reading
  a string gives that text, and the members listed in \<open>failing\<close> fail with the errors
  given for them.
\<close>

definition example_values :: "(string \<times> u64) list" where
  "example_values =
     [(''modules->next'', 0x1000),
      (''mod->core_layout.base'', 0xffffffffa0000000), (''mod->core_layout.size'', 0x10000),
      (''mod->module_core'', 0xffffffffa0000000), (''mod->core_size'', 0x10000),
      (''attrs[].address'', 0xffffffffa0001000)]"

definition example_kernel :: "(string \<times> drgn_error) list \<Rightarrow> string object_ops" where
  "example_kernel failing =
     \<lparr>drgn_object_member_dereference =
        (\<lambda>obj m. case map_of failing m of Some err \<Rightarrow> Inl err | None \<Rightarrow> Inr (obj @ ''->'' @ m)),
      drgn_object_member =
        (\<lambda>obj m. case map_of failing m of Some err \<Rightarrow> Inl err | None \<Rightarrow> Inr (obj @ ''.'' @ m)),
      drgn_object_read = Inr,
      drgn_object_read_unsigned =
        (\<lambda>obj. case map_of example_values obj of
                 Some v \<Rightarrow> Inr v
               | None \<Rightarrow> Inl (drgn_error_create DRGN_ERROR_OTHER ''fault'')),
      drgn_object_read_c_string = Inr,
      drgn_object_container_of = (\<lambda>obj m. Inr ''mod''),
      drgn_object_subscript = (\<lambda>obj i. Inr (obj @ ''[]''))\<rparr>"

definition example_iterator :: "string kernel_module_iterator" where
  "example_iterator =
     \<lparr>it_name = [], modules_file = None, it_start = 0, it_end = 0, it_mod = [],
      it_node = ''modules'', tmp1 = ''attrs'', tmp2 = [], tmp3 = [], head = 0x2000\<rparr>"

definition example_section_iterator :: "(string, drgn_error) kernel_module_section_iterator" where
  "example_section_iterator =
     \<lparr>kmod_it = example_iterator, sections_dir = None, sit_i = 0, nsections = 1, sit_name = []\<rparr>"

section \<open>The discovery coordinator\<close>

text \<open>
  An ELF handle, as far as the coordinator looks into it, with the outcome of each call of
  the ELF library on it. A section has whether \<^verbatim>\<open>gelf_getshdr\<close> succeeds on it
  (\<open>shdr_ok\<close>) and, in the header read, whether the section is allocated (\<^verbatim>\<open>SHF_ALLOC\<close>)
  and its address; what \<^verbatim>\<open>elf_strptr\<close> gives for its name (\<open>None\<close> when it fails); and
  whether \<^verbatim>\<open>gelf_update_shdr\<close> succeeds on it (\<open>update_ok\<close>). The handle has whether
  \<^verbatim>\<open>elf_getshdrstrndx\<close> succeeds (\<open>shstrndx_ok\<close>), the sections in the order of
  \<^verbatim>\<open>elf_nextscn\<close>, and the GNU build ID that \<^verbatim>\<open>dwelf_elf_gnu_build_id\<close> finds (\<open>None\<close>
  when it fails, empty when the file has none).
\<close>

record elf_section =
  shdr_ok :: bool
  scn_name :: "string option"
  sh_alloc :: bool
  sh_addr :: u64
  update_ok :: bool

record elf =
  shstrndx_ok :: bool
  elf_sections :: "elf_section list"
  elf_gnu_build_id :: "char list option"

text \<open>
  \<^verbatim>\<open>drgn_error_libelf\<close>, the error made from the ELF library's last error. Its
  definition (\<^verbatim>\<open>error.c\<close>) is not part of the source at hand: it is an error object, not
  one of the sentinels, and its text is not modelled.
\<close>

definition drgn_error_libelf :: drgn_error where
  "drgn_error_libelf = drgn_error_create DRGN_ERROR_OTHER ''libelf error''"

text \<open>
  Memory for the two hash tables (\<^verbatim>\<open>hash_table.h\<close> is not part of the source at hand):
  whether a table can grow to hold the given number of entries. An insertion finds the
  key, and leaves its entry as it is, or makes room for the new entry; when it cannot, it
  returns -1, and the caller fails with \<^verbatim>\<open>drgn_enomem\<close>.
\<close>

type_synonym allocator = "nat \<Rightarrow> bool"

text \<open>
  \<^verbatim>\<open>struct kernel_module_file\<close>; the \<^verbatim>\<open>next\<close> pointers of the files with one build ID
  make a chain, which is a list here, its head first. The table maps a build ID to its
  chain.
\<close>

record kernel_module_file =
  kmod_path :: string
  kmod_fd :: int
  kmod_elf :: elf
  gnu_build_id :: "char list"

type_synonym kernel_module_table = "char list \<rightharpoonup> kernel_module_file list"

text \<open>
  The indexer collaborator. The load state records the calls made to it, in order; what
  a call returns (\<open>None\<close> for success, or the error of a fatal abort) is a function of
  the calls so far and the call.
\<close>

datatype indexer_call =
    Report_error "string option" "string option" "drgn_error option"
  | Report_elf string int elf u64 u64 "string option"
  | Report_flush

record drgn_debug_info_load_state =
  calls :: "indexer_call list"
  load_default :: bool

type_synonym indexer = "indexer_call list \<Rightarrow> indexer_call \<Rightarrow> drgn_error option"

definition call_indexer ::
  "indexer \<Rightarrow> drgn_debug_info_load_state \<Rightarrow> indexer_call \<Rightarrow>
   drgn_error option \<times> drgn_debug_info_load_state" where
  "call_indexer indexer load c = (indexer (calls load) c, load\<lparr>calls := calls load @ [c]\<rparr>)"

definition drgn_debug_info_report_error ::
  "indexer \<Rightarrow> drgn_debug_info_load_state \<Rightarrow> string option \<Rightarrow> string option \<Rightarrow>
   drgn_error option \<Rightarrow> drgn_error option \<times> drgn_debug_info_load_state" where
  "drgn_debug_info_report_error indexer load name message err =
     call_indexer indexer load (Report_error name message err)"

definition drgn_debug_info_report_elf ::
  "indexer \<Rightarrow> drgn_debug_info_load_state \<Rightarrow> string \<Rightarrow> int \<Rightarrow> elf \<Rightarrow> u64 \<Rightarrow> u64 \<Rightarrow>
   string option \<Rightarrow> drgn_error option \<times> drgn_debug_info_load_state" where
  "drgn_debug_info_report_elf indexer load path fd e start end name =
     call_indexer indexer load (Report_elf path fd e start end name)"

text \<open>
  What the module iterator, the build-ID extractor and the section iterator give for one
  loaded module: its name and range, the outcome of
  \<^verbatim>\<open>kernel_module_iterator_gnu_build_id\<close> (an error, or the build ID, empty when no note
  has one), and the outcome of the section iteration (the error of its initialisation, or
  the sections it yields and the error that ends it, \<^verbatim>\<open>drgn_stop\<close> at the regular end).
\<close>

record loaded_module =
  lm_name :: string
  lm_start :: u64
  lm_end :: u64
  lm_build_id :: "drgn_error + char list"
  lm_sections_init :: "drgn_error option"
  lm_sections :: "(string \<times> u64) list"
  lm_sections_end :: drgn_error

text \<open>
  \<^verbatim>\<open>cache_kernel_module_sections\<close>, in its two loops. The first fills the map from names
  to sections (a section is its index in the handle) with the allocated sections: it
  fails when a header or a name cannot be read, or when the map cannot grow; a name that
  the map holds already keeps its first section. The second takes the sections that the
  iterator yields, up to the error that ends the iteration: a section that the map holds
  gets its address, unless its header cannot be read or written back, which ends the loop
  with that error. The handle is changed in place, also when the function fails.
\<close>

fun elf_scn_name_map_fill ::
  "allocator \<Rightarrow> (string \<times> nat) list \<Rightarrow> nat \<Rightarrow> elf_section list \<Rightarrow>
   drgn_error + (string \<times> nat) list" where
  "elf_scn_name_map_fill can_grow scn_map i [] = Inr scn_map"
| "elf_scn_name_map_fill can_grow scn_map i (scn # scns) =
     (if \<not> shdr_ok scn then Inl drgn_error_libelf
      else if \<not> sh_alloc scn then elf_scn_name_map_fill can_grow scn_map (Suc i) scns
      else
        (case scn_name scn of
           None \<Rightarrow> Inl drgn_error_libelf
         | Some key \<Rightarrow>
             (case map_of scn_map key of
                Some j \<Rightarrow> elf_scn_name_map_fill can_grow scn_map (Suc i) scns
              | None \<Rightarrow>
                  if \<not> can_grow (Suc (length scn_map)) then Inl drgn_enomem
                  else elf_scn_name_map_fill can_grow (scn_map @ [(key, i)]) (Suc i) scns)))"

fun patch_sections ::
  "(string \<times> nat) list \<Rightarrow> (string \<times> u64) list \<Rightarrow> drgn_error \<Rightarrow> elf_section list \<Rightarrow>
   drgn_error \<times> elf_section list" where
  "patch_sections scn_map [] err scns = (err, scns)"
| "patch_sections scn_map ((name, address) # sections) err scns =
     (case map_of scn_map name of
        None \<Rightarrow> patch_sections scn_map sections err scns
      | Some i \<Rightarrow>
          if \<not> shdr_ok (scns ! i) then (drgn_error_libelf, scns)
          else if \<not> update_ok (scns ! i) then (drgn_error_libelf, scns)
          else patch_sections scn_map sections err (scns[i := (scns ! i)\<lparr>sh_addr := address\<rparr>]))"

definition cache_kernel_module_sections ::
  "allocator \<Rightarrow> loaded_module \<Rightarrow> elf \<Rightarrow> drgn_error option \<times> elf" where
  "cache_kernel_module_sections can_grow m e =
     (if \<not> shstrndx_ok e then (Some drgn_error_libelf, e)
      else
        (case elf_scn_name_map_fill can_grow [] 0 (elf_sections e) of
           Inl err \<Rightarrow> (Some err, e)
         | Inr scn_map \<Rightarrow>
             (case lm_sections_init m of
                Some err \<Rightarrow> (Some err, e)
              | None \<Rightarrow>
                  (case patch_sections scn_map (lm_sections m) (lm_sections_end m)
                          (elf_sections e) of
                     (err, scns) \<Rightarrow>
                       (if err = drgn_stop then None else Some err,
                        e\<lparr>elf_sections := scns\<rparr>)))))"

text \<open>
  \<^verbatim>\<open>report_loaded_kernel_module\<close> and its loop over the chain. The result is the error
  returned, the load state and the table.
\<close>

fun report_chain ::
  "indexer \<Rightarrow> allocator \<Rightarrow> drgn_debug_info_load_state \<Rightarrow> loaded_module \<Rightarrow>
   kernel_module_file list \<Rightarrow> drgn_error option \<times> drgn_debug_info_load_state" where
  "report_chain indexer can_grow load m [] = (None, load)"
| "report_chain indexer can_grow load m (kmod # chain) =
     (case cache_kernel_module_sections can_grow m (kmod_elf kmod) of
        (Some err, e) \<Rightarrow>
          (case drgn_debug_info_report_error indexer load (Some (kmod_path kmod))
                  (Some ''could not get section addresses'') (Some err) of
             (Some err', load') \<Rightarrow> (Some err', load')
           | (None, load') \<Rightarrow> report_chain indexer can_grow load' m chain)
      | (None, e) \<Rightarrow>
          (case drgn_debug_info_report_elf indexer load (kmod_path kmod) (kmod_fd kmod) e
                  (lm_start m) (lm_end m) (Some (lm_name m)) of
             (Some err', load') \<Rightarrow> (Some err', load')
           | (None, load') \<Rightarrow> report_chain indexer can_grow load' m chain))"

definition report_loaded_kernel_module ::
  "indexer \<Rightarrow> allocator \<Rightarrow> drgn_debug_info_load_state \<Rightarrow> loaded_module \<Rightarrow>
   kernel_module_table \<Rightarrow>
   drgn_error option \<times> drgn_debug_info_load_state \<times> kernel_module_table" where
  "report_loaded_kernel_module indexer can_grow load m kmod_table =
     (case lm_build_id m of
        Inl err \<Rightarrow>
          (case drgn_debug_info_report_error indexer load (Some (lm_name m))
                  (Some ''could not find GNU build ID'') (Some err) of
             (r, load') \<Rightarrow> (r, load', kmod_table))
      | Inr key \<Rightarrow>
          if key = [] then
            (case drgn_debug_info_report_error indexer load (Some (lm_name m))
                    (Some ''could not find GNU build ID'') None of
               (r, load') \<Rightarrow> (r, load', kmod_table))
          else
            (case kmod_table key of
               None \<Rightarrow> (Some drgn_not_found, load, kmod_table)
             | Some chain \<Rightarrow>
                 (case report_chain indexer can_grow load m chain of
                    (r, load') \<Rightarrow> (r, load', kmod_table(key := None)))))"


text \<open>
  \<^verbatim>\<open>report_default_kernel_module\<close>. \<^verbatim>\<open>find_elf_file\<close> is outside the source at hand and
  belongs to the environment: it gets the candidate paths in order. So do
  \<^verbatim>\<open>drgn_debug_info_is_indexed\<close> (\<open>is_indexed\<close>), a function of the module's name, and
  the memory that the two hash tables find. \<open>len0\<close> is what the uninitialised
  \<^verbatim>\<open>depmod_path_len\<close> holds.
\<close>

record depmod_index =
  depmod_addr :: "char list option"

record environment =
  indexer_of :: indexer
  is_indexed :: "string \<Rightarrow> bool"
  modules_dep_bin_of :: modules_dep_bin
  find_elf_file :: "string list \<Rightarrow> drgn_error + (string \<times> int \<times> elf) option"
  osrelease_of :: string
  scn_map_can_grow :: allocator
  kmod_table_can_grow :: allocator

definition module_paths :: "string \<Rightarrow> char list \<Rightarrow> char list \<Rightarrow> string list" where
  "module_paths release stem extension =
     [''/usr/lib/debug/lib/modules/'' @ release @ ''/'' @ c_string stem,
      ''/usr/lib/debug/lib/modules/'' @ release @ ''/'' @ c_string stem @ ''.debug'',
      ''/lib/modules/'' @ release @ ''/'' @ c_string stem @ c_string extension]"

definition extension_len :: "char list \<Rightarrow> nat" where
  "extension_len depmod_path =
     (if length depmod_path \<ge> 3 \<and>
         (drop (length depmod_path - 3) depmod_path = ''.gz'' \<or>
          drop (length depmod_path - 3) depmod_path = ''.xz'')
      then 3 else 0)"

definition report_default_kernel_module ::
  "environment \<Rightarrow> nat \<Rightarrow> drgn_debug_info_load_state \<Rightarrow> loaded_module \<Rightarrow> char list \<Rightarrow>
   drgn_error option \<times> drgn_debug_info_load_state" where
  "report_default_kernel_module env len0 load m depmod =
     (case depmod_index_find depmod (lm_name m) len0 of
        Inl err \<Rightarrow>
          drgn_debug_info_report_error (indexer_of env) load (Some ''kernel modules'')
            (Some ''could not parse depmod'') (Some err)
      | Inr (None, depmod_path_len) \<Rightarrow>
          drgn_debug_info_report_error (indexer_of env) load (Some (lm_name m))
            (Some ''could not find module in depmod'') None
      | Inr (Some depmod_path, depmod_path_len) \<Rightarrow>
          (case find_elf_file env
                  (module_paths (osrelease_of env)
                     (take (depmod_path_len - extension_len depmod_path) depmod_path)
                     (drop (depmod_path_len - extension_len depmod_path) depmod_path)) of
             Inl err \<Rightarrow>
               drgn_debug_info_report_error (indexer_of env) load None None (Some err)
           | Inr None \<Rightarrow>
               drgn_debug_info_report_error (indexer_of env) load (Some (lm_name m))
                 (Some ''could not find .ko'') None
           | Inr (Some (path, fd, e)) \<Rightarrow>
               (case cache_kernel_module_sections (scn_map_can_grow env) m e of
                  (Some err, e') \<Rightarrow>
                    drgn_debug_info_report_error (indexer_of env) load (Some path)
                      (Some ''could not get section addresses'') (Some err)
                | (None, e') \<Rightarrow>
                    drgn_debug_info_report_elf (indexer_of env) load path fd e'
                      (lm_start m) (lm_end m) (Some (lm_name m)))))"

text \<open>
  The body of the loop of \<^verbatim>\<open>report_loaded_kernel_modules\<close> for one module, on the load
  state, the table (\<open>None\<close> for a null \<^verbatim>\<open>kmod_table\<close>) and the depmod index (\<open>None\<close>
  for a null \<^verbatim>\<open>depmod\<close>): first the explicitly reported files, then the default
  locations.
\<close>

datatype loop_control = Continue | Break drgn_error

type_synonym coordinator_state =
  "drgn_debug_info_load_state \<times> kernel_module_table option \<times> depmod_index option"

definition report_default_step ::
  "environment \<Rightarrow> nat \<Rightarrow> coordinator_state \<Rightarrow> loaded_module \<Rightarrow>
   loop_control \<times> coordinator_state" where
  "report_default_step env len0 st m =
     (case st of
        (load, kmod_table, depmod) \<Rightarrow>
          (case depmod of
             None \<Rightarrow> (Continue, st)
           | Some d \<Rightarrow>
               if is_indexed env (lm_name m) then (Continue, st)
               else
                 (case (case depmod_addr d of
                          Some data \<Rightarrow> Inr data
                        | None \<Rightarrow> fst (depmod_index_init (modules_dep_bin_of env))) of
                    Inl err \<Rightarrow>
                      (case drgn_debug_info_report_error (indexer_of env) load
                              (Some ''kernel modules'') (Some ''could not read depmod'')
                              (Some err) of
                         (Some err', load') \<Rightarrow>
                           (Break err', (load', kmod_table, Some (d\<lparr>depmod_addr := None\<rparr>)))
                       | (None, load') \<Rightarrow> (Continue, (load', kmod_table, None)))
                  | Inr data \<Rightarrow>
                      (case report_default_kernel_module env len0 load m data of
                         (Some err, load') \<Rightarrow>
                           (Break err, (load', kmod_table, Some (d\<lparr>depmod_addr := Some data\<rparr>)))
                       | (None, load') \<Rightarrow>
                           (Continue,
                            (load', kmod_table, Some (d\<lparr>depmod_addr := Some data\<rparr>)))))))"

definition report_loaded_step ::
  "environment \<Rightarrow> nat \<Rightarrow> coordinator_state \<Rightarrow> loaded_module \<Rightarrow>
   loop_control \<times> coordinator_state" where
  "report_loaded_step env len0 st m =
     (case st of
        (load, kmod_table, depmod) \<Rightarrow>
          (case kmod_table of
             None \<Rightarrow> report_default_step env len0 st m
           | Some tab \<Rightarrow>
               (case report_loaded_kernel_module (indexer_of env) (scn_map_can_grow env) load m
                       tab of
                  (None, load', tab') \<Rightarrow> (Continue, (load', Some tab', depmod))
                | (Some err, load', tab') \<Rightarrow>
                    if err \<noteq> drgn_not_found then (Break err, (load', Some tab', depmod))
                    else report_default_step env len0 (load', Some tab', depmod) m)))"

text \<open>
  \<^verbatim>\<open>report_loaded_kernel_modules\<close>, over the outcome of the module iterator: the error
  of its initialisation, or the modules it yields and the error that ends it.
\<close>

record module_iteration =
  mi_init :: "drgn_error option"
  mi_modules :: "loaded_module list"
  mi_end :: drgn_error




definition kmod_table_arg ::
  "kernel_module_file list \<Rightarrow> kernel_module_table \<Rightarrow> kernel_module_table option" where
  "kmod_table_arg kmods kmod_table = (if kmods \<noteq> [] then Some kmod_table else None)"



text \<open>
  The call that reports a file for a loaded module, with the handle as
  \<^verbatim>\<open>cache_kernel_module_sections\<close> leaves it; a file on which no call of the ELF library
  fails and whose section map finds its memory; the candidate files with a given build
  ID; a module without a build ID, and the call that reports it.
\<close>

definition report_call :: "allocator \<Rightarrow> loaded_module \<Rightarrow> kernel_module_file \<Rightarrow> indexer_call" where
  "report_call can_grow m kmod =
     Report_elf (kmod_path kmod) (kmod_fd kmod)
       (snd (cache_kernel_module_sections can_grow m (kmod_elf kmod)))
       (lm_start m) (lm_end m) (Some (lm_name m))"

definition elf_readable :: "allocator \<Rightarrow> elf \<Rightarrow> bool" where
  "elf_readable can_grow e =
     (shstrndx_ok e \<and>
      list_all (\<lambda>scn. shdr_ok scn \<and> update_ok scn \<and>
                  (if sh_alloc scn then scn_name scn \<noteq> None else True)) (elf_sections e) \<and>
      list_all can_grow [1..<Suc (length (elf_sections e))])"


definition no_build_id :: "loaded_module \<Rightarrow> bool" where
  "no_build_id m = (case lm_build_id m of Inl err \<Rightarrow> True | Inr key \<Rightarrow> key = [])"

definition build_id_error_call :: "loaded_module \<Rightarrow> indexer_call" where
  "build_id_error_call m =
     Report_error (Some (lm_name m)) (Some ''could not find GNU build ID'')
       (case lm_build_id m of Inl err \<Rightarrow> Some err | Inr key \<Rightarrow> None)"

text \<open>
  An example run: two candidate files with the build ID \<^verbatim>\<open>B\<close>, a loaded module with
  that build ID, an indexer that never aborts, memory that never runs out, and a host with
  no depmod index. In \<open>unreadable_elf\<close> the name of the allocated section cannot be read.
\<close>

definition unbounded :: allocator where
  "unbounded n = True"

definition accepting_indexer :: indexer where
  "accepting_indexer history c = None"

definition example_elf :: elf where
  "example_elf =
     \<lparr>shstrndx_ok = True,
      elf_sections =
        [\<lparr>shdr_ok = True, scn_name = Some ''.text'', sh_alloc = True, sh_addr = 0,
          update_ok = True\<rparr>,
         \<lparr>shdr_ok = True, scn_name = Some ''.debug_info'', sh_alloc = False, sh_addr = 0,
          update_ok = True\<rparr>],
      elf_gnu_build_id = Some ''B''\<rparr>"

definition unreadable_elf :: elf where
  "unreadable_elf =
     \<lparr>shstrndx_ok = True,
      elf_sections =
        [\<lparr>shdr_ok = True, scn_name = None, sh_alloc = True, sh_addr = 0, update_ok = True\<rparr>],
      elf_gnu_build_id = Some ''B''\<rparr>"

definition example_kmods :: "kernel_module_file list" where
  "example_kmods =
     [\<lparr>kmod_path = ''first.ko'', kmod_fd = 3, kmod_elf = example_elf, gnu_build_id = []\<rparr>,
      \<lparr>kmod_path = ''second.ko'', kmod_fd = 4, kmod_elf = example_elf, gnu_build_id = []\<rparr>]"

definition example_module :: loaded_module where
  "example_module =
     \<lparr>lm_name = ''foo'', lm_start = 0xffffffffa0000000, lm_end = 0xffffffffa0010000,
      lm_build_id = Inr ''B'', lm_sections_init = None,
      lm_sections = [(''.text'', 0xffffffffa0000000), (''.data'', 0xffffffffa0008000)],
      lm_sections_end = drgn_stop\<rparr>"

definition example_environment :: environment where
  "example_environment =
     \<lparr>indexer_of = accepting_indexer, is_indexed = (\<lambda>name. False),
      modules_dep_bin_of = Open_fails, find_elf_file = (\<lambda>paths. Inr None),
      osrelease_of = ''6.1.0'', scn_map_can_grow = unbounded,
      kmod_table_can_grow = unbounded\<rparr>"

definition example_iteration :: module_iteration where
  "example_iteration = \<lparr>mi_init = None, mi_modules = [example_module], mi_end = drgn_stop\<rparr>"

definition example_table_order :: "kernel_module_table \<Rightarrow> char list list" where
  "example_table_order kmod_table = [''B'']"

section \<open>Evaluation rules\<close>

lemmas strtoull_eval = strtoull_def isspace_def sign_of_def has_hex_prefix_def
  effective_base_def digit_of_def ULLONG_MAX_def

lemmas vmcoreinfo_eval = line_to_u64_def linematch_def parse_vmcoreinfo_line_def
  parse_vmcoreinfo_def osrelease_unset_def

lemma parse_vmcoreinfo_loop_Nil: "parse_vmcoreinfo_loop osz [] tail ret = Inr ret"
  by simp

lemma parse_vmcoreinfo_loop_Cons:
  "parse_vmcoreinfo_loop osz (c # cs) tail ret =
     (case memchr (c # cs) (CHR 0x0A) of
        None \<Rightarrow> Inr ret
      | Some nl \<Rightarrow>
          (case parse_vmcoreinfo_line osz ((c # cs) @ tail) nl ret of
             Inl err \<Rightarrow> Inl err
           | Inr ret' \<Rightarrow> parse_vmcoreinfo_loop osz (drop (Suc nl) (c # cs)) tail ret'))"
  by (subst parse_vmcoreinfo_loop.simps) simp

declare parse_vmcoreinfo_loop.simps [simp del]

lemmas parse_vmcoreinfo_loop_eval = parse_vmcoreinfo_loop_Nil parse_vmcoreinfo_loop_Cons

section \<open>VMCOREINFO: what an accepted descriptor guarantees\<close>

text \<open>
  Claim C1, as the code has it. Whenever \<^verbatim>\<open>parse_vmcoreinfo\<close> returns success, the C string
  in \<open>osrelease\<close> is non-empty, \<open>page_size\<close> is non-zero and \<open>swapper_pg_dir\<close> is
  non-zero; hence an input for which one of the three would fail is rejected with an
  error. The parser checks nothing more about \<open>page_size\<close>: neither that it is a power
  of two nor that it is at least 4096.
\<close>

theorem parse_vmcoreinfo_accepted:
  "parse_vmcoreinfo osz desc tail ret0 = Inr ret \<Longrightarrow>
     c_string (osrelease ret) \<noteq> [] \<and> page_size ret \<noteq> 0 \<and> swapper_pg_dir ret \<noteq> 0"
  by (auto simp: parse_vmcoreinfo_def osrelease_unset_def c_string_def
           split: sum.splits if_splits list.splits)

theorem parse_vmcoreinfo_accepted_witness:
  "parse_vmcoreinfo 128
     ''OSRELEASE=6.1.0\<newline>PAGESIZE=4096\<newline>KERNELOFFSET=1a000000\<newline>SYMBOL(swapper_pg_dir)=ffffffff81c0a000\<newline>''
     [] \<lparr>osrelease = [], page_size = 0, kaslr_offset = 0, swapper_pg_dir = 0,
         pgtable_l5_enabled = False\<rparr>
   = Inr \<lparr>osrelease = ''6.1.0'', page_size = 4096, kaslr_offset = 0x1a000000,
           swapper_pg_dir = 0xffffffff81c0a000, pgtable_l5_enabled = False\<rparr>
   \<and> c_string ''6.1.0'' \<noteq> [] \<and> (4096 :: u64) \<noteq> 0 \<and> (0xffffffff81c0a000 :: u64) \<noteq> 0"
proof -
  have h: "parse_vmcoreinfo 128
     ''OSRELEASE=6.1.0\<newline>PAGESIZE=4096\<newline>KERNELOFFSET=1a000000\<newline>SYMBOL(swapper_pg_dir)=ffffffff81c0a000\<newline>''
     [] \<lparr>osrelease = [], page_size = 0, kaslr_offset = 0, swapper_pg_dir = 0,
         pgtable_l5_enabled = False\<rparr>
   = Inr \<lparr>osrelease = ''6.1.0'', page_size = 4096, kaslr_offset = 0x1a000000,
           swapper_pg_dir = 0xffffffff81c0a000, pgtable_l5_enabled = False\<rparr>"
    by (simp add: vmcoreinfo_eval strtoull_eval parse_vmcoreinfo_loop_eval)
  from parse_vmcoreinfo_accepted [OF h] h show ?thesis by simp
qed

text \<open>
  Claim C1 as stated fails: a descriptor whose \<^verbatim>\<open>PAGESIZE\<close> is 3 is accepted, and 3 is
  neither a power of two nor at least 4096.
\<close>

theorem parse_vmcoreinfo_page_size_counterexample:
  "parse_vmcoreinfo 128
     ''OSRELEASE=6.1.0\<newline>PAGESIZE=3\<newline>SYMBOL(swapper_pg_dir)=1\<newline>''
     [] \<lparr>osrelease = [], page_size = 0, kaslr_offset = 0, swapper_pg_dir = 0,
         pgtable_l5_enabled = False\<rparr>
   = Inr \<lparr>osrelease = ''6.1.0'', page_size = 3, kaslr_offset = 0,
           swapper_pg_dir = 1, pgtable_l5_enabled = False\<rparr>
   \<and> \<not> (is_power_of_two (3 :: u64) \<and> (4096 :: u64) \<le> 3)"
  by (simp add: vmcoreinfo_eval strtoull_eval parse_vmcoreinfo_loop_eval)

section \<open>VMCOREINFO: number bases\<close>

lemma digit_of_value: "digit_of b c = Some d \<Longrightarrow> b \<le> 36 \<Longrightarrow> digit_value c = d"
  by (auto simp: digit_of_def digit_value_def Let_def split: if_splits)

lemma scan_digits_all:
  "list_all (\<lambda>c. digit_of b c \<noteq> None) ds \<Longrightarrow> b \<le> 36 \<Longrightarrow>
   (case rest of [] \<Rightarrow> True | c # _ \<Rightarrow> digit_of b c = None) \<Longrightarrow>
   scan_digits b (ds @ rest) acc n = (foldl (\<lambda>acc c. acc * b + digit_value c) acc ds, n + length ds)"
proof (induction ds arbitrary: acc n)
  case Nil
  then show ?case by (cases rest) auto
next
  case (Cons d ds)
  from Cons.prems obtain v where v: "digit_of b d = Some v" by auto
  with Cons.prems have "digit_value d = v" by (simp add: digit_of_value)
  with Cons v show ?case by simp
qed

lemma digit_not_space: "digit_of b c \<noteq> None \<Longrightarrow> \<not> isspace c"
  by (auto simp: digit_of_def isspace_def Let_def split: if_splits)

lemma digit_not_sign: "digit_of b c \<noteq> None \<Longrightarrow> c \<noteq> CHR ''-'' \<and> c \<noteq> CHR ''+''"
  by (auto simp: digit_of_def Let_def split: if_splits)

lemma digit_of_newline: "digit_of b (CHR 0x0A) = None"
  by (simp add: digit_of_def)

lemma strtoull_plain:
  assumes ds: "ds \<noteq> []" "list_all (\<lambda>c. digit_of b c \<noteq> None) ds" and b: "b \<le> 36"
    and px: "\<not> ((base = 0 \<or> base = 16) \<and> has_hex_prefix (ds @ CHR 0x0A # rest))"
    and eb: "effective_base base (ds @ CHR 0x0A # rest) = b"
  shows "strtoull (ds @ CHR 0x0A # rest) base =
           (if digits_value b ds > ULLONG_MAX then (of_nat ULLONG_MAX, length ds, True)
            else (of_nat (digits_value b ds), length ds, False))"
proof -
  from ds obtain d ds' where d: "ds = d # ds'" by (cases ds) auto
  with ds have dd: "digit_of b d \<noteq> None" by simp
  have ws: "takeWhile isspace (ds @ CHR 0x0A # rest) = []"
    using d digit_not_space [OF dd] by simp
  have sg: "sign_of (ds @ CHR 0x0A # rest) = (False, 0)"
    using d digit_not_sign [OF dd] by (simp add: sign_of_def)
  have sc: "scan_digits b (ds @ CHR 0x0A # rest) 0 0 = (digits_value b ds, length ds)"
    using scan_digits_all [OF ds(2) b, of "CHR 0x0A # rest" 0 0]
    by (simp add: digit_of_newline digits_value_def)
  show ?thesis
  proof (cases "base = 0 \<or> base = 16")
    case True
    with px have "\<not> has_hex_prefix (ds @ CHR 0x0A # rest)" by simp
    with True ds(1) show ?thesis by (simp add: strtoull_def ws sg eb sc)
  next
    case False
    with ds(1) show ?thesis by (simp add: strtoull_def ws sg eb sc)
  qed
qed

lemma strtoull_prefixed:
  assumes hs: "hs \<noteq> []" "list_all (\<lambda>c. digit_of 16 c \<noteq> None) hs"
    and x: "x = CHR ''x'' \<or> x = CHR ''X''" and base: "base = 0 \<or> base = 16"
  shows "strtoull (CHR ''0'' # x # hs @ CHR 0x0A # rest) base =
           (if digits_value 16 hs > ULLONG_MAX then (of_nat ULLONG_MAX, 2 + length hs, True)
            else (of_nat (digits_value 16 hs), 2 + length hs, False))"
proof -
  define s where "s = CHR ''0'' # x # hs @ CHR 0x0A # rest"
  from hs obtain h hs' where h: "hs = h # hs'" by (cases hs) auto
  with hs have hd: "digit_of 16 h \<noteq> None" by simp
  have ws: "takeWhile isspace s = []"
    by (simp add: s_def isspace_def)
  have sg: "sign_of s = (False, 0)"
    by (simp add: s_def sign_of_def)
  have px: "has_hex_prefix s"
    using h hd x by (auto simp: s_def has_hex_prefix_def)
  have eb: "effective_base base s = 16"
    using px base by (auto simp: effective_base_def)
  have dr: "drop 2 s = hs @ CHR 0x0A # rest"
    by (simp add: s_def)
  have sc: "scan_digits 16 (hs @ CHR 0x0A # rest) 0 0 = (digits_value 16 hs, length hs)"
    using scan_digits_all [OF hs(2), of "CHR 0x0A # rest" 0 0]
    by (simp add: digit_of_newline digits_value_def)
  have "strtoull s base =
           (if digits_value 16 hs > ULLONG_MAX then (of_nat ULLONG_MAX, 2 + length hs, True)
            else (of_nat (digits_value 16 hs), 2 + length hs, False))"
    using hs(1) base px by (auto simp: strtoull_def ws sg eb sc dr)
  then show ?thesis by (simp add: s_def)
qed

lemma digits_in_SomeD:
  "digits_in b t = Some v \<Longrightarrow>
     t \<noteq> [] \<and> list_all (\<lambda>c. digit_of b c \<noteq> None) t \<and> v = digits_value b t"
  by (auto simp: digits_in_def split: if_splits)

lemma hex_prefixedD:
  "hex_prefixed t \<Longrightarrow> \<exists>x hs. t = CHR ''0'' # x # hs \<and> (x = CHR ''x'' \<or> x = CHR ''X'')"
  by (cases t; cases "tl t") (auto simp: hex_prefixed_def)

lemma not_hex_prefix_plain:
  assumes "list_all (\<lambda>c. digit_of b c \<noteq> None) t" "b \<le> 16"
  shows "\<not> has_hex_prefix (t @ CHR 0x0A # rest)"
proof (cases t)
  case Nil
  then show ?thesis by (cases rest; cases "tl rest") (auto simp: has_hex_prefix_def)
next
  case (Cons a t')
  show ?thesis
  proof (cases t')
    case Nil
    with Cons show ?thesis by (cases rest) (auto simp: has_hex_prefix_def)
  next
    case (Cons c t'')
    with \<open>t = a # t'\<close> assms have "digit_of b c \<noteq> None" by simp
    with assms(2) have "c \<noteq> CHR ''x'' \<and> c \<noteq> CHR ''X''"
      by (auto simp: digit_of_def Let_def split: if_splits)
    with Cons \<open>t = a # t'\<close> show ?thesis
      by (cases t'') (auto simp: has_hex_prefix_def)
  qed
qed

lemma line_to_u64_numeral:
  assumes nv: "numeral_value base t = Some v" and base: "base = 0 \<or> base = 16"
  shows "line_to_u64 (t @ CHR 0x0A # rest) (length t) base = converted v"
proof (cases "hex_prefixed t")
  case True
  then obtain x hs where t: "t = CHR ''0'' # x # hs" and x: "x = CHR ''x'' \<or> x = CHR ''X''"
    using hex_prefixedD by blast
  from nv base True t have "digits_in 16 hs = Some v" by (simp add: numeral_value_def)
  from digits_in_SomeD [OF this] strtoull_prefixed [of hs x base rest] x base t
  show ?thesis by (auto simp: line_to_u64_def converted_def)
next
  case False
  define b where "b = (if base = 16 then 16 else if take 1 t = ''0'' then 8 else (10::nat))"
  from nv base False have "digits_in b t = Some v"
    by (auto simp: numeral_value_def b_def split: if_splits)
  from digits_in_SomeD [OF this]
  have t: "t \<noteq> []" "list_all (\<lambda>c. digit_of b c \<noteq> None) t" "v = digits_value b t" by auto
  have b16: "b \<le> 16" by (simp add: b_def)
  have nhp: "\<not> has_hex_prefix (t @ CHR 0x0A # rest)"
    by (rule not_hex_prefix_plain [OF t(2) b16])
  have eb: "effective_base base (t @ CHR 0x0A # rest) = b"
    using nhp base t(1) by (cases t) (auto simp: effective_base_def b_def)
  from strtoull_plain [OF t(1) t(2) _ _ eb] nhp b16 t(1) t(3)
  show ?thesis by (auto simp: line_to_u64_def converted_def)
qed

lemma memchr_append: "c \<notin> set xs \<Longrightarrow> memchr (xs @ c # ys) c = Some (length xs)"
  by (induction xs) auto

lemma digits_no_newline:
  "list_all (\<lambda>c. digit_of b c \<noteq> None) t \<Longrightarrow> CHR 0x0A \<notin> set t"
  by (auto simp: list_all_iff digit_of_newline)

lemma numeral_no_newline:
  assumes "numeral_value base t = Some v"
  shows "CHR 0x0A \<notin> set t"
proof (cases "(base = 0 \<or> base = 16) \<and> hex_prefixed t")
  case True
  then obtain x hs where t: "t = CHR ''0'' # x # hs" and x: "x = CHR ''x'' \<or> x = CHR ''X''"
    using hex_prefixedD by blast
  from assms True t have "digits_in 16 hs = Some v" by (simp add: numeral_value_def)
  from digits_in_SomeD [OF this] have "list_all (\<lambda>c. digit_of 16 c \<noteq> None) hs" by blast
  then have "CHR 0x0A \<notin> set hs" by (rule digits_no_newline)
  with t x show ?thesis by auto
next
  case False
  with assms obtain b where "digits_in b t = Some v"
    by (auto simp: numeral_value_def split: if_splits)
  from digits_in_SomeD [OF this] have "list_all (\<lambda>c. digit_of b c \<noteq> None) t" by blast
  then show ?thesis by (rule digits_no_newline)
qed

lemma parse_vmcoreinfo_loop_line:
  assumes "CHR 0x0A \<notin> set ln"
  shows "parse_vmcoreinfo_loop osz (ln @ CHR 0x0A # nxt) tail ret =
           (case parse_vmcoreinfo_line osz (ln @ CHR 0x0A # nxt @ tail) (length ln) ret of
              Inl err \<Rightarrow> Inl err
            | Inr ret' \<Rightarrow> parse_vmcoreinfo_loop osz nxt tail ret')"
  by (subst parse_vmcoreinfo_loop.simps)
     (simp add: memchr_append [OF assms] cong: sum.case_cong)

text \<open>
  Claim C6, as the code has it. A \<^verbatim>\<open>PAGESIZE=\<close> or \<^verbatim>\<open>NUMBER(pgtable_l5_enabled)=\<close> line
  is converted with base 0, the C library's automatic base: a numeral that base 0
  admits (decimal, hexadecimal after \<^verbatim>\<open>0x\<close>, octal after a leading \<^verbatim>\<open>0\<close>) is stored with
  its value. A \<^verbatim>\<open>KERNELOFFSET=\<close> or \<^verbatim>\<open>SYMBOL(swapper_pg_dir)=\<close> line is converted with
  base 16. In each case a value above \<^verbatim>\<open>ULLONG_MAX\<close> ends the parse with the overflow
  error, and otherwise the loop goes on with the next line.
\<close>

theorem vmcoreinfo_number_bases:
  assumes n0: "numeral_value 0 t0 = Some v0" and n16: "numeral_value 16 t16 = Some v16"
  shows "parse_vmcoreinfo_loop osz (''PAGESIZE='' @ t0 @ CHR 0x0A # nxt) tail ret =
           (if v0 \<le> ULLONG_MAX
            then parse_vmcoreinfo_loop osz nxt tail (ret\<lparr>page_size := of_nat v0\<rparr>)
            else Inl number_too_large)
       \<and> parse_vmcoreinfo_loop osz (''NUMBER(pgtable_l5_enabled)='' @ t0 @ CHR 0x0A # nxt) tail ret =
           (if v0 \<le> ULLONG_MAX
            then parse_vmcoreinfo_loop osz nxt tail
                   (ret\<lparr>pgtable_l5_enabled := ((of_nat v0 :: u64) \<noteq> 0)\<rparr>)
            else Inl number_too_large)
       \<and> parse_vmcoreinfo_loop osz (''KERNELOFFSET='' @ t16 @ CHR 0x0A # nxt) tail ret =
           (if v16 \<le> ULLONG_MAX
            then parse_vmcoreinfo_loop osz nxt tail (ret\<lparr>kaslr_offset := of_nat v16\<rparr>)
            else Inl number_too_large)
       \<and> parse_vmcoreinfo_loop osz (''SYMBOL(swapper_pg_dir)='' @ t16 @ CHR 0x0A # nxt) tail ret =
           (if v16 \<le> ULLONG_MAX
            then parse_vmcoreinfo_loop osz nxt tail (ret\<lparr>swapper_pg_dir := of_nat v16\<rparr>)
            else Inl number_too_large)"
proof -
  note nl0 = numeral_no_newline [OF n0] and nl16 = numeral_no_newline [OF n16]
  note c0 = line_to_u64_numeral [OF n0, of "nxt @ tail"]
  note c16 = line_to_u64_numeral [OF n16, of "nxt @ tail"]
  have 1: "parse_vmcoreinfo_loop osz (''PAGESIZE='' @ t0 @ CHR 0x0A # nxt) tail ret =
           (if v0 \<le> ULLONG_MAX
            then parse_vmcoreinfo_loop osz nxt tail (ret\<lparr>page_size := of_nat v0\<rparr>)
            else Inl number_too_large)"
    using parse_vmcoreinfo_loop_line [of "''PAGESIZE='' @ t0" osz nxt tail ret] nl0 c0
    by (simp add: parse_vmcoreinfo_line_def linematch_def converted_def number_too_large_def)
  have 2: "parse_vmcoreinfo_loop osz (''NUMBER(pgtable_l5_enabled)='' @ t0 @ CHR 0x0A # nxt) tail ret =
           (if v0 \<le> ULLONG_MAX
            then parse_vmcoreinfo_loop osz nxt tail
                   (ret\<lparr>pgtable_l5_enabled := ((of_nat v0 :: u64) \<noteq> 0)\<rparr>)
            else Inl number_too_large)"
    using parse_vmcoreinfo_loop_line [of "''NUMBER(pgtable_l5_enabled)='' @ t0" osz nxt tail ret]
      nl0 c0
    by (simp add: parse_vmcoreinfo_line_def linematch_def converted_def number_too_large_def)
  have 3: "parse_vmcoreinfo_loop osz (''KERNELOFFSET='' @ t16 @ CHR 0x0A # nxt) tail ret =
           (if v16 \<le> ULLONG_MAX
            then parse_vmcoreinfo_loop osz nxt tail (ret\<lparr>kaslr_offset := of_nat v16\<rparr>)
            else Inl number_too_large)"
    using parse_vmcoreinfo_loop_line [of "''KERNELOFFSET='' @ t16" osz nxt tail ret] nl16 c16
    by (simp add: parse_vmcoreinfo_line_def linematch_def converted_def number_too_large_def)
  have 4: "parse_vmcoreinfo_loop osz (''SYMBOL(swapper_pg_dir)='' @ t16 @ CHR 0x0A # nxt) tail ret =
           (if v16 \<le> ULLONG_MAX
            then parse_vmcoreinfo_loop osz nxt tail (ret\<lparr>swapper_pg_dir := of_nat v16\<rparr>)
            else Inl number_too_large)"
    using parse_vmcoreinfo_loop_line [of "''SYMBOL(swapper_pg_dir)='' @ t16" osz nxt tail ret]
      nl16 c16
    by (simp add: parse_vmcoreinfo_line_def linematch_def converted_def number_too_large_def)
  from 1 2 3 4 show ?thesis by blast
qed

theorem vmcoreinfo_number_bases_witness:
  "numeral_value 0 ''0x1000'' = Some 4096 \<and> numeral_value 16 ''1a000000'' = Some 436207616
   \<and> parse_vmcoreinfo_loop 128 ''PAGESIZE=0x1000\<newline>'' []
         \<lparr>osrelease = [], page_size = 0, kaslr_offset = 0, swapper_pg_dir = 0,
            pgtable_l5_enabled = False\<rparr>
       = Inr \<lparr>osrelease = [], page_size = 4096, kaslr_offset = 0, swapper_pg_dir = 0,
            pgtable_l5_enabled = False\<rparr>
   \<and> parse_vmcoreinfo_loop 128 ''NUMBER(pgtable_l5_enabled)=0x1000\<newline>'' []
         \<lparr>osrelease = [], page_size = 0, kaslr_offset = 0, swapper_pg_dir = 0,
            pgtable_l5_enabled = False\<rparr>
       = Inr \<lparr>osrelease = [], page_size = 0, kaslr_offset = 0, swapper_pg_dir = 0,
            pgtable_l5_enabled = True\<rparr>
   \<and> parse_vmcoreinfo_loop 128 ''KERNELOFFSET=1a000000\<newline>'' []
         \<lparr>osrelease = [], page_size = 0, kaslr_offset = 0, swapper_pg_dir = 0,
            pgtable_l5_enabled = False\<rparr>
       = Inr \<lparr>osrelease = [], page_size = 0, kaslr_offset = 436207616, swapper_pg_dir = 0,
            pgtable_l5_enabled = False\<rparr>
   \<and> parse_vmcoreinfo_loop 128 ''SYMBOL(swapper_pg_dir)=1a000000\<newline>'' []
         \<lparr>osrelease = [], page_size = 0, kaslr_offset = 0, swapper_pg_dir = 0,
            pgtable_l5_enabled = False\<rparr>
       = Inr \<lparr>osrelease = [], page_size = 0, kaslr_offset = 0, swapper_pg_dir = 436207616,
            pgtable_l5_enabled = False\<rparr>"
proof -
  have n0: "numeral_value 0 ''0x1000'' = Some 4096"
    by (simp add: numeral_value_def hex_prefixed_def digits_in_def digits_value_def
          digit_value_def digit_of_def)
  have n16: "numeral_value 16 ''1a000000'' = Some 436207616"
    by (simp add: numeral_value_def hex_prefixed_def digits_in_def digits_value_def
          digit_value_def digit_of_def)
  from vmcoreinfo_number_bases [OF n0 n16, of 128 "[]" "[]"
         "\<lparr>osrelease = [], page_size = 0, kaslr_offset = 0, swapper_pg_dir = 0,
            pgtable_l5_enabled = False\<rparr>"] n0 n16
  show ?thesis by (simp add: ULLONG_MAX_def parse_vmcoreinfo_loop_Nil)
qed

text \<open>
  Claim C6 as stated fails: the text \<^verbatim>\<open>010\<close> is ten in base 10, and the parser stores
  eight for \<^verbatim>\<open>PAGESIZE=010\<close>.
\<close>

theorem vmcoreinfo_pagesize_base_counterexample:
  "parse_vmcoreinfo 128
     ''OSRELEASE=6.1.0\<newline>PAGESIZE=010\<newline>SYMBOL(swapper_pg_dir)=1\<newline>''
     [] \<lparr>osrelease = [], page_size = 0, kaslr_offset = 0, swapper_pg_dir = 0,
         pgtable_l5_enabled = False\<rparr>
   = Inr \<lparr>osrelease = ''6.1.0'', page_size = 8, kaslr_offset = 0,
           swapper_pg_dir = 1, pgtable_l5_enabled = False\<rparr>
   \<and> line_to_u64 ''010\<newline>'' 3 10 = Inr 10"
  by (simp add: vmcoreinfo_eval strtoull_eval parse_vmcoreinfo_loop_eval)

section \<open>The VMCOREINFO note's framing\<close>

text \<open>
  What the fallback checks before it parses: at least 24 bytes, \<^verbatim>\<open>n_namesz = 11\<close>, the
  ten bytes \<^verbatim>\<open>VMCOREINFO\<close> at offset 12, and a descriptor that fits; the descriptor
  parsed is the \<^verbatim>\<open>n_descsz\<close> bytes from offset 24.
\<close>

lemma read_vmcoreinfo_fallback_check:
  assumes "length buf = sz"
  shows "read_vmcoreinfo_fallback le (Scanned address sz) True (Inr buf) osz tail ret0 =
           (if 24 \<le> length buf \<and> load_u32 le buf = 11 \<and>
               take 10 (drop 12 buf) = ''VMCOREINFO'' \<and>
               unat (load_u32 le (drop 4 buf)) \<le> length buf - 24
            then parse_vmcoreinfo osz (take (unat (load_u32 le (drop 4 buf))) (drop 24 buf))
                   (drop (24 + unat (load_u32 le (drop 4 buf))) buf @ tail) ret0
            else Inl (drgn_error_create DRGN_ERROR_OTHER ''VMCOREINFO is invalid''))"
  using assms by (auto simp: read_vmcoreinfo_fallback_def Let_def)

text \<open>
  Claim C9 at a note whose eleven name bytes are \<^verbatim>\<open>VMCOREINFOX\<close>, with no terminating
  NUL: the fallback compares ten bytes only, accepts the note and parses its descriptor.
  (\<^verbatim>\<open>parse_gnu_build_id_from_note\<close> compares a note's name with its terminator,
  \<^verbatim>\<open>sizeof("GNU")\<close> bytes.)
\<close>

theorem read_vmcoreinfo_fallback_unterminated_name:
  "read_vmcoreinfo_fallback True (Scanned 0x1000 75) True
     (Inr ([CHR 0x0B, CHR 0x00, CHR 0x00, CHR 0x00, CHR 0x33, CHR 0x00, CHR 0x00, CHR 0x00,
            CHR 0x00, CHR 0x00, CHR 0x00, CHR 0x00] @ ''VMCOREINFOX'' @ [CHR 0x00] @
           ''OSRELEASE=6\<newline>PAGESIZE=4096\<newline>SYMBOL(swapper_pg_dir)=1\<newline>''))
     128 []
     \<lparr>osrelease = [], page_size = 0, kaslr_offset = 0, swapper_pg_dir = 0,
        pgtable_l5_enabled = False\<rparr>
   = Inr \<lparr>osrelease = ''6'', page_size = 4096, kaslr_offset = 0, swapper_pg_dir = 1,
        pgtable_l5_enabled = False\<rparr>
   \<and> ''VMCOREINFOX'' \<noteq> ''VMCOREINFO'' @ [CHR 0x00]"
  by (simp add: read_vmcoreinfo_fallback_def load_u32_def be32_def
        vmcoreinfo_eval strtoull_eval parse_vmcoreinfo_loop_eval)

section \<open>The depmod index: lookups\<close>

lemmas depmod_eval = depmod_index_buffer_error_def binary_buffer_check_bounds_def
  binary_buffer_next_u8_def binary_buffer_next_u32_def binary_buffer_skip_def
  binary_buffer_next_string_def INDEX_NODE_MASK_def INDEX_NODE_CHILDS_def INDEX_NODE_VALUES_def
  INDEX_NODE_PREFIX_def size_t_of_int_def depmod_find_children_def depmod_find_step_def
  depmod_index_find_def load_u32_def be32_def

declare depmod_find_loop.simps [simp del]

lemma bytes_atD: "bytes_at data pos bs \<Longrightarrow> \<exists>rest. drop pos data = bs @ rest"
  unfolding bytes_at_def by (metis append_take_drop_id)

lemma next_string_at:
  assumes "bytes_at data off (p @ [CHR 0x00])" "CHR 0x00 \<notin> set p"
  shows "binary_buffer_next_string data off = Inr (p, off + length p + 1)"
proof -
  from bytes_atD [OF assms(1)] obtain rest where "drop off data = p @ CHR 0x00 # rest" by auto
  then show ?thesis
    using assms(2) by (simp add: binary_buffer_next_string_def memchr_append)
qed

lemma unat_of_char_u8: "unat (of_char c :: u8) = of_char c"
proof -
  have "(of_char c :: u8) = of_nat (of_char c)" by (simp add: of_nat_of_char)
  then have "unat (of_char c :: u8) = (of_char c :: nat) mod 256" by (simp add: unat_of_nat)
  then show ?thesis by simp
qed

lemma slots_at_nth:
  "slots_at data pos slots \<Longrightarrow> i < length slots \<Longrightarrow>
     pos + 4 * i + 4 \<le> length data \<and>
     trie_at data (load_u32 False (drop (pos + 4 * i) data)) (slots ! i)"
proof (induction slots arbitrary: pos i)
  case Nil
  then show ?case by simp
next
  case (Cons s ss)
  show ?case
  proof (cases i)
    case 0
    with Cons.prems show ?thesis by simp
  next
    case (Suc j)
    with Cons.prems have "slots_at data (pos + 4) ss" "j < length ss" by auto
    from Cons.IH [OF this] Suc show ?thesis by (simp add: add.assoc add.commute)
  qed
qed

lemma slots_at_bound:
  "slots_at data pos slots \<Longrightarrow> slots \<noteq> [] \<Longrightarrow> pos + 4 * length slots \<le> length data"
  using slots_at_nth [of data pos slots "length slots - 1"] by (cases slots) auto

lemma slots_walk_nth:
  "slots_walk slots i name = (if i < length slots then trie_walk (slots ! i) name else None)"
  by (induction slots arbitrary: i) (auto simp: nth_Cons')


lemma size_t_of_int_nat: "i < 2 ^ 64 \<Longrightarrow> size_t_of_int (int i) = i"
  by (simp add: size_t_of_int_def unat_of_nat)

lemma children_absent:
  "t AND INDEX_NODE_CHILDS = 0 \<Longrightarrow>
     depmod_find_children data t pos name =
       (if name \<noteq> [] then Step_not_found else Step_break t pos)"
  by (simp add: depmod_find_children_def)

lemma children_present:
  assumes t: "t AND INDEX_NODE_CHILDS \<noteq> 0"
    and b: "pos + 2 \<le> length data" "pos + 2 + 4 * n \<le> length data"
    and f: "of_char (data ! pos) = first_byte" "of_char (data ! (pos + 1)) = first_byte + n - 1"
    and n: "0 < n" "first_byte + n \<le> 256"
  shows "depmod_find_children data t pos name =
     (case name of
        [] \<Rightarrow> Step_break t (pos + 2 + 4 * n)
      | c # cs \<Rightarrow>
          if of_char c < first_byte \<or> first_byte + n \<le> of_char c then Step_not_found
          else Step_continue (pos + 2 + 4 * (of_char c - first_byte)) cs)"
proof -
  define fw :: u8 where "fw = of_char (data ! pos)"
  define lw :: u8 where "lw = of_char (data ! (pos + 1))"
  have fw: "unat fw = first_byte" using f(1) by (simp add: fw_def unat_of_char_u8)
  have lw: "unat lw = first_byte + n - 1" using f(2) by (simp add: lw_def unat_of_char_u8)
  have r1: "binary_buffer_next_u8 data pos = Inr (fw, pos + 1)"
    using b(1) by (simp add: binary_buffer_next_u8_def binary_buffer_check_bounds_def fw_def)
  have r2: "binary_buffer_next_u8 data (pos + 1) = Inr (lw, pos + 2)"
    using b(1) by (simp add: binary_buffer_next_u8_def binary_buffer_check_bounds_def lw_def)
  show ?thesis
  proof (cases name)
    case Nil
    have "uint lw - uint fw + 1 = int n"
      using fw lw n by (simp add: uint_nat)
    then have "size_t_of_int (4 * (uint lw - uint fw + 1)) = 4 * n"
      using size_t_of_int_nat [of "4 * n"] n by simp
    then show ?thesis
      using Nil t b(2) r1 r2
      by (simp add: depmod_find_children_def binary_buffer_skip_def
            binary_buffer_check_bounds_def)
  next
    case (Cons c cs)
    define cur :: u8 where "cur = of_char c"
    have cur: "unat cur = of_char c" by (simp add: cur_def unat_of_char_u8)
    have lt: "cur < fw \<longleftrightarrow> (of_char c :: nat) < first_byte"
      by (simp add: word_less_nat_alt cur fw)
    have gt: "cur > lw \<longleftrightarrow> first_byte + n \<le> of_char c"
      using n by (auto simp: word_less_nat_alt cur lw)
    show ?thesis
    proof (cases "of_char c < first_byte \<or> first_byte + n \<le> of_char c")
      case True
      then show ?thesis
        using Cons t r1 r2 lt gt
        by (simp add: depmod_find_children_def cur_def [symmetric])
    next
      case False
      then have "uint cur - uint fw = int (of_char c - first_byte)"
        using cur fw by (simp add: uint_nat)
      moreover have "4 * (of_char c - first_byte) < (2::nat) ^ 64"
      proof -
        have "(of_char c :: nat) < 256" by simp
        then have "4 * ((of_char c :: nat) - first_byte) < 1024" by arith
        then show ?thesis by simp
      qed
      ultimately have sz: "size_t_of_int (4 * (uint cur - uint fw)) = 4 * (of_char c - first_byte)"
        using size_t_of_int_nat [of "4 * (of_char c - first_byte)"] by simp
      have "4 * (of_char c - first_byte) \<le> length data - (pos + 2)"
        using False b(2) by arith
      then show ?thesis
        using Cons t r1 r2 lt gt False sz
        by (simp add: depmod_find_children_def cur_def [symmetric] binary_buffer_skip_def
              binary_buffer_check_bounds_def)
    qed
  qed
qed

lemma step_at_node:
  assumes pos: "pos + 4 \<le> length data" and t: "t = load_u32 False (drop pos data)"
    and at: "trie_at data t (Trie p ch vs)"
  shows "depmod_find_step data pos name =
     (if take (length p) name \<noteq> p then Step_not_found
      else
        (case drop (length p) name of
           [] \<Rightarrow> Step_break t (node_values_pos t p ch)
         | c # cs \<Rightarrow>
             (case ch of
                None \<Rightarrow> Step_not_found
              | Some (first_byte, slots) \<Rightarrow>
                  if of_char c < first_byte \<or> first_byte + length slots \<le> of_char c
                  then Step_not_found
                  else Step_continue (node_table_pos t p + 2 + 4 * (of_char c - first_byte)) cs)))"
proof -
  let ?off = "unat (t AND INDEX_NODE_MASK)"
  let ?pos1 = "node_table_pos t p"
  from at have off: "?off \<le> length data" by (simp add: Let_def)
  have rd: "binary_buffer_next_u32 False data pos = Inr (t, pos + 4)"
    using pos t by (simp add: binary_buffer_next_u32_def binary_buffer_check_bounds_def)
  have ch: "depmod_find_children data t ?pos1 nm =
     (case nm of
        [] \<Rightarrow> Step_break t (node_values_pos t p ch)
      | c # cs \<Rightarrow>
          (case ch of
             None \<Rightarrow> Step_not_found
           | Some (first_byte, slots) \<Rightarrow>
               if of_char c < first_byte \<or> first_byte + length slots \<le> of_char c
               then Step_not_found
               else Step_continue (?pos1 + 2 + 4 * (of_char c - first_byte)) cs))" for nm
  proof (cases ch)
    case None
    with at have "t AND INDEX_NODE_CHILDS = 0" by (simp add: Let_def)
    from children_absent [OF this] None show ?thesis
      by (cases nm) (simp_all add: node_values_pos_def)
  next
    case (Some fs)
    obtain first_byte slots where fs: "fs = (first_byte, slots)" by (cases fs)
    from at Some fs have c: "t AND INDEX_NODE_CHILDS \<noteq> 0" "slots \<noteq> []"
      "first_byte + length slots \<le> 256" "?pos1 + 2 \<le> length data"
      "of_char (data ! ?pos1) = first_byte"
      "of_char (data ! (?pos1 + 1)) = first_byte + length slots - 1"
      "slots_at data (?pos1 + 2) slots"
      by (simp_all add: Let_def node_table_pos_def)
    from slots_at_bound [OF c(7) c(2)] have b: "?pos1 + 2 + 4 * length slots \<le> length data" .
    from c(2) have n: "0 < length slots" by simp
    from children_present [OF c(1) c(4) b c(5) c(6) n c(3), of nm] Some fs
    show ?thesis by (cases nm) (simp_all add: node_values_pos_def)
  qed
  show ?thesis
  proof (cases "t AND INDEX_NODE_PREFIX = 0")
    case True
    with at have "p = []" by (simp add: Let_def)
    with True rd off ch [of name] show ?thesis
      by (simp add: depmod_find_step_def node_table_pos_def)
  next
    case False
    with at have "bytes_at data ?off (p @ [CHR 0x00])" "CHR 0x00 \<notin> set p"
      by (simp_all add: Let_def)
    from next_string_at [OF this] False
    have "binary_buffer_next_string data ?off = Inr (p, ?pos1)"
      by (simp add: node_table_pos_def)
    with False rd off ch [of "drop (length p) name"] show ?thesis
      by (simp add: depmod_find_step_def)
  qed
qed

lemma trie_at_values:
  "trie_at data t (Trie p ch vs) \<Longrightarrow>
     (case vs of
        None \<Rightarrow> t AND INDEX_NODE_VALUES = 0
      | Some vals \<Rightarrow> t AND INDEX_NODE_VALUES \<noteq> 0 \<and> values_at data (node_values_pos t p ch) vals)"
  by (cases ch; cases vs)
     (auto simp: Let_def node_values_pos_def node_table_pos_def split: prod.splits)

lemma loop_walk:
  "pos + 4 \<le> length data \<Longrightarrow> trie_at data (load_u32 False (drop pos data)) T \<Longrightarrow>
     walk_agrees data (trie_walk T name) (depmod_find_loop data pos name)"
proof (induction "length name" arbitrary: name T pos rule: less_induct)
  case less
  obtain p ch vs where T: "T = Trie p ch vs" by (cases T)
  define t where "t = load_u32 False (drop pos data)"
  from less.prems T have at: "trie_at data t (Trie p ch vs)" by (simp add: t_def)
  note step = step_at_node [OF less.prems(1) t_def at, of name]
  note loop = depmod_find_loop.simps [of data pos name]
  show ?case
  proof (cases "take (length p) name \<noteq> p")
    case True
    with step have "depmod_find_step data pos name = Step_not_found" by simp
    with loop have "depmod_find_loop data pos name = Inr None" by simp
    moreover from True T have "trie_walk T name = None" by simp
    ultimately show ?thesis by (simp add: walk_agrees_def)
  next
    case False
    note pfx = this
    show ?thesis
    proof (cases "drop (length p) name")
      case Nil
      with pfx step
      have "depmod_find_step data pos name = Step_break t (node_values_pos t p ch)" by simp
      with loop
      have "depmod_find_loop data pos name = Inr (Some (t, node_values_pos t p ch))" by simp
      moreover from pfx Nil T have "trie_walk T name = Some vs" by simp
      ultimately show ?thesis
        using trie_at_values [OF at] by (simp add: walk_agrees_def)
    next
      case (Cons c cs)
      show ?thesis
      proof (cases ch)
        case None
        with Cons pfx step have "depmod_find_step data pos name = Step_not_found" by simp
        with loop have "depmod_find_loop data pos name = Inr None" by simp
        moreover from None Cons pfx T have "trie_walk T name = None" by simp
        ultimately show ?thesis by (simp add: walk_agrees_def)
      next
        case (Some fs)
        obtain first_byte slots where fs: "fs = (first_byte, slots)" by (cases fs)
        show ?thesis
        proof (cases "of_char c < first_byte \<or> first_byte + length slots \<le> of_char c")
          case True
          with Some fs Cons pfx step
          have "depmod_find_step data pos name = Step_not_found" by simp
          with loop have "depmod_find_loop data pos name = Inr None" by simp
          moreover from True Some fs Cons pfx T have "trie_walk T name = None" by simp
          ultimately show ?thesis by (simp add: walk_agrees_def)
        next
          case False
          define i where "i = (of_char c :: nat) - first_byte"
          from False have i: "i < length slots" by (auto simp: i_def)
          from at Some fs have "slots_at data (node_table_pos t p + 2) slots"
            by (simp add: Let_def node_table_pos_def)
          from slots_at_nth [OF this i]
          have nx: "node_table_pos t p + 2 + 4 * i + 4 \<le> length data"
            "trie_at data (load_u32 False (drop (node_table_pos t p + 2 + 4 * i) data)) (slots ! i)"
            by auto
          have "length (drop (length p) name) \<le> length name" by simp
          with Cons have "length cs < length name" by simp
          from less.hyps [OF this nx]
          have "walk_agrees data (trie_walk (slots ! i) cs)
                  (depmod_find_loop data (node_table_pos t p + 2 + 4 * i) cs)" .
          moreover have "depmod_find_step data pos name =
                  Step_continue (node_table_pos t p + 2 + 4 * i) cs"
            using False Some fs Cons pfx step by (simp add: i_def)
          with loop have "depmod_find_loop data pos name =
                  depmod_find_loop data (node_table_pos t p + 2 + 4 * i) cs"
            by simp
          moreover have "trie_walk T name = trie_walk (slots ! i) cs"
            using False Some fs Cons pfx T i by (simp add: slots_walk_nth i_def)
          ultimately show ?thesis by simp
        qed
      qed
    qed
  qed
qed

lemma values_found:
  assumes "values_at data pos ((priority, path, deps) # vals)"
  shows "binary_buffer_next_u32 False data pos = Inr (of_nat (Suc (length vals)), pos + 4)"
    and "of_nat (Suc (length vals)) \<noteq> (0 :: u32)"
    and "binary_buffer_skip data (pos + 4) 4 = Inr (pos + 8)"
    and "memchr (drop (pos + 8) data) (CHR '':'') = Some (length path)"
    and "take (length path) (drop (pos + 8) data) = path"
proof -
  from assms have b: "pos + 4 \<le> length data" "pos + 8 \<le> length data"
    and n: "Suc (length vals) < 2 ^ 32"
    and c: "load_u32 False (drop pos data) = of_nat (Suc (length vals))"
    and r: "bytes_at data (pos + 8) (path @ CHR '':'' # deps @ [CHR 0x00])"
    and nc: "CHR '':'' \<notin> set path"
    by (simp_all add: values_at_def add.assoc)
  show "binary_buffer_next_u32 False data pos = Inr (of_nat (Suc (length vals)), pos + 4)"
    using b c by (simp add: binary_buffer_next_u32_def binary_buffer_check_bounds_def)
  show "of_nat (Suc (length vals)) \<noteq> (0 :: u32)"
    using n by (simp add: of_nat_eq_0_iff unat_of_nat word_eq_iff_unsigned [where ?'a = nat] del: of_nat_Suc)
  show "binary_buffer_skip data (pos + 4) 4 = Inr (pos + 8)"
    using b by (simp add: binary_buffer_skip_def binary_buffer_check_bounds_def)
  from bytes_atD [OF r] obtain rest where
    d: "drop (pos + 8) data = path @ CHR '':'' # deps @ CHR 0x00 # rest" by auto
  show "memchr (drop (pos + 8) data) (CHR '':'') = Some (length path)"
    using nc by (simp add: d memchr_append)
  show "take (length path) (drop (pos + 8) data) = path"
    by (simp add: d)
qed

lemma values_empty:
  assumes "values_at data pos []"
  shows "binary_buffer_next_u32 False data pos = Inr (0, pos + 4)"
proof -
  from assms have "pos + 4 \<le> length data" "load_u32 False (drop pos data) = 0"
    by (simp_all add: values_at_def)
  then show ?thesis
    by (simp add: binary_buffer_next_u32_def binary_buffer_check_bounds_def)
qed

text \<open>
  Claim C4, as the code has it. On a well-formed index, \<^verbatim>\<open>depmod_index_find\<close> returns
  what the walk of the stored trie gives: where the name is exhausted at a node with a
  non-empty value list, the path of the first record up to its \<^verbatim>\<open>:\<close> and the path's
  length; at a mismatch or a node without values, a null path and no error, with the
  length output left as the caller had it.
\<close>

theorem depmod_index_find_trie:
  assumes "depmod_well_formed data T"
  shows "depmod_index_find data name len_ret =
           (case trie_lookup T name of
              Some path \<Rightarrow> Inr (Some path, length path)
            | None \<Rightarrow> Inr (None, len_ret))"
proof -
  from assms have "8 + 4 \<le> length data" "trie_at data (load_u32 False (drop 8 data)) T"
    by (simp_all add: depmod_well_formed_def)
  from loop_walk [OF this, of name]
  have w: "walk_agrees data (trie_walk T name) (depmod_find_loop data 8 name)" .
  show ?thesis
  proof (cases "trie_walk T name")
    case None
    with w show ?thesis by (simp add: walk_agrees_def depmod_index_find_def trie_lookup_def)
  next
    case (Some vs)
    with w obtain t pos where r: "depmod_find_loop data 8 name = Inr (Some (t, pos))"
      and v: "case vs of None \<Rightarrow> t AND INDEX_NODE_VALUES = 0
              | Some vals \<Rightarrow> t AND INDEX_NODE_VALUES \<noteq> 0 \<and> values_at data pos vals"
      by (auto simp: walk_agrees_def)
    show ?thesis
    proof (cases vs)
      case None
      with v r Some show ?thesis by (simp add: depmod_index_find_def trie_lookup_def)
    next
      case (Some vals)
      note vs = this
      show ?thesis
      proof (cases vals)
        case Nil
        with v vs have "values_at data pos []" by simp
        from values_empty [OF this] v vs r Nil \<open>trie_walk T name = Some vs\<close> show ?thesis
          by (simp add: depmod_index_find_def trie_lookup_def)
      next
        case (Cons rec recs)
        obtain priority path deps where rec: "rec = (priority, path, deps)" by (cases rec)
        from v vs Cons rec have "values_at data pos ((priority, path, deps) # recs)" by simp
        note f = values_found [OF this]
        from v vs have "t AND INDEX_NODE_VALUES \<noteq> 0" by simp
        with f r Cons rec vs \<open>trie_walk T name = Some vs\<close> show ?thesis
          by (simp add: depmod_index_find_def trie_lookup_def del: of_nat_Suc)
      qed
    qed
  qed
qed

theorem depmod_index_find_trie_witness:
  "depmod_well_formed example_index example_trie
   \<and> depmod_index_find example_index ''ac'' 7 = Inr (Some ''y/ac.ko.xz'', 10)
   \<and> depmod_index_find example_index ''ab'' 7 = Inr (Some ''x/ab.ko'', 7)
   \<and> depmod_index_find example_index ''a'' 7 = Inr (None, 7)"
proof -
  have wf: "depmod_well_formed example_index example_trie"
    by (simp add: example_index_def example_trie_def depmod_well_formed_def depmod_eval
          bytes_at_def values_at_def)
  have "trie_lookup example_trie ''ac'' = Some ''y/ac.ko.xz''"
    "trie_lookup example_trie ''ab'' = Some ''x/ab.ko''"
    "trie_lookup example_trie ''a'' = None"
    by (simp_all add: example_trie_def trie_lookup_def)
  with depmod_index_find_trie [OF wf, of "''ac''" 7] depmod_index_find_trie [OF wf, of "''ab''" 7]
    depmod_index_find_trie [OF wf, of "''a''" 7] wf
  show ?thesis by simp
qed

text \<open>
  Claim C4 as stated fails in its last part: a miss on a well-formed index returns the
  null path and leaves the length as it was, here 7, not 0.
\<close>

theorem depmod_index_find_miss_length_counterexample:
  "depmod_well_formed example_index example_trie
   \<and> trie_walk example_trie ''ad'' = None
   \<and> depmod_index_find example_index ''ad'' 7 = Inr (None, 7)"
  by (simp add: example_index_def example_trie_def depmod_well_formed_def depmod_eval
        bytes_at_def values_at_def depmod_find_loop.simps)

section \<open>The depmod index: malformed data\<close>

lemma reaches_loop:
  "depmod_reaches data name pos nm \<Longrightarrow>
     depmod_find_loop data 8 name = depmod_find_loop data pos nm"
proof (induction rule: depmod_reaches.induct)
  case start
  show ?case by simp
next
  case (continue pos nm pos' nm')
  then show ?case by (simp add: depmod_find_loop.simps [of data pos nm])
qed

lemma memchr_None: "c \<notin> set xs \<Longrightarrow> memchr xs c = None"
  by (induction xs) auto

lemma step_out_of_bounds:
  "binary_buffer_next_u32 False data pos = Inr (offset, p') \<Longrightarrow>
   unat (offset AND INDEX_NODE_MASK) > length data \<Longrightarrow>
   depmod_find_step data pos nm =
     Step_error (depmod_index_buffer_error ''offset is out of bounds'')"
  by (simp add: depmod_find_step_def)

text \<open>
  Claim C5, as the code has it. At any state that a lookup passes through: a node offset
  beyond the end of the file ends the lookup with the error "offset is out of bounds"; a
  value list whose count is zero ends it with the "not found" result (null path, no
  error); a first value record with no \<^verbatim>\<open>:\<close> before the end of the file ends it with the
  error "expected string containing ':'".
\<close>

theorem depmod_index_find_malformed:
  assumes "depmod_reaches data name pos nm"
  shows "(binary_buffer_next_u32 False data pos = Inr (offset, p') \<and>
          unat (offset AND INDEX_NODE_MASK) > length data \<longrightarrow>
            depmod_index_find data name len_ret =
              Inl (depmod_index_buffer_error ''offset is out of bounds''))
       \<and> (depmod_find_step data pos nm = Step_break offset vpos \<and>
          offset AND INDEX_NODE_VALUES \<noteq> 0 \<and>
          binary_buffer_next_u32 False data vpos = Inr (0, p') \<longrightarrow>
            depmod_index_find data name len_ret = Inr (None, len_ret))
       \<and> (depmod_find_step data pos nm = Step_break offset vpos \<and>
          offset AND INDEX_NODE_VALUES \<noteq> 0 \<and>
          binary_buffer_next_u32 False data vpos = Inr (value_count, p') \<and> value_count \<noteq> 0 \<and>
          vpos + 8 \<le> length data \<and> CHR '':'' \<notin> set (drop (vpos + 8) data) \<longrightarrow>
            depmod_index_find data name len_ret =
              Inl (depmod_index_buffer_error expected_colon))"
proof -
  note start = reaches_loop [OF assms]
  note loop = depmod_find_loop.simps [of data pos nm]
  have 1: "depmod_index_find data name len_ret =
              Inl (depmod_index_buffer_error ''offset is out of bounds'')"
    if "binary_buffer_next_u32 False data pos = Inr (offset, p')"
      and "unat (offset AND INDEX_NODE_MASK) > length data"
  proof -
    from step_out_of_bounds [OF that, of nm] loop
    have "depmod_find_loop data pos nm =
            Inl (depmod_index_buffer_error ''offset is out of bounds'')" by simp
    with start show ?thesis by (simp add: depmod_index_find_def)
  qed
  have 2: "depmod_index_find data name len_ret = Inr (None, len_ret)"
    if "depmod_find_step data pos nm = Step_break offset vpos"
      and "offset AND INDEX_NODE_VALUES \<noteq> 0"
      and "binary_buffer_next_u32 False data vpos = Inr (0, p')"
  proof -
    from that(1) loop have "depmod_find_loop data pos nm = Inr (Some (offset, vpos))" by simp
    with start that(2,3) show ?thesis by (simp add: depmod_index_find_def)
  qed
  have 3: "depmod_index_find data name len_ret =
              Inl (depmod_index_buffer_error expected_colon)"
    if "depmod_find_step data pos nm = Step_break offset vpos"
      and "offset AND INDEX_NODE_VALUES \<noteq> 0"
      and "binary_buffer_next_u32 False data vpos = Inr (value_count, p')"
      and "value_count \<noteq> 0" and "vpos + 8 \<le> length data"
      and "CHR '':'' \<notin> set (drop (vpos + 8) data)"
  proof -
    from that(1) loop have l: "depmod_find_loop data pos nm = Inr (Some (offset, vpos))" by simp
    from that(3) have p': "p' = vpos + 4"
      by (auto simp: binary_buffer_next_u32_def split: if_splits)
    from that(5) have sk: "binary_buffer_skip data (vpos + 4) 4 = Inr (vpos + 8)"
      by (simp add: binary_buffer_skip_def binary_buffer_check_bounds_def)
    from memchr_None [OF that(6)] l start that(2,3,4) p' sk show ?thesis
      by (simp add: depmod_index_find_def)
  qed
  from 1 2 3 show ?thesis by blast
qed

theorem depmod_index_find_malformed_witness:
  "depmod_index_find
     [CHR 0xb0, CHR 0x07, CHR 0xf4, CHR 0x57, CHR 0x00, CHR 0x02, CHR 0x00, CHR 0x01,
      CHR 0x00, CHR 0x00, CHR 0x00, CHR 0x64] ''foo'' 0
     = Inl (depmod_index_buffer_error ''offset is out of bounds'')
   \<and> depmod_index_find
     [CHR 0xb0, CHR 0x07, CHR 0xf4, CHR 0x57, CHR 0x00, CHR 0x02, CHR 0x00, CHR 0x01,
      CHR 0x40, CHR 0x00, CHR 0x00, CHR 0x0C, CHR 0x00, CHR 0x00, CHR 0x00, CHR 0x00] [] 7
     = Inr (None, 7)
   \<and> depmod_index_find
     [CHR 0xb0, CHR 0x07, CHR 0xf4, CHR 0x57, CHR 0x00, CHR 0x02, CHR 0x00, CHR 0x01,
      CHR 0x40, CHR 0x00, CHR 0x00, CHR 0x0C, CHR 0x00, CHR 0x00, CHR 0x00, CHR 0x01,
      CHR 0x00, CHR 0x00, CHR 0x00, CHR 0x00, CHR ''a'', CHR ''b'', CHR ''c'', CHR 0x00] [] 7
     = Inl (depmod_index_buffer_error expected_colon)"
proof -
  let ?a = "[CHR 0xb0, CHR 0x07, CHR 0xf4, CHR 0x57, CHR 0x00, CHR 0x02, CHR 0x00, CHR 0x01,
      CHR 0x00, CHR 0x00, CHR 0x00, CHR 0x64]"
  let ?b = "[CHR 0xb0, CHR 0x07, CHR 0xf4, CHR 0x57, CHR 0x00, CHR 0x02, CHR 0x00, CHR 0x01,
      CHR 0x40, CHR 0x00, CHR 0x00, CHR 0x0C, CHR 0x00, CHR 0x00, CHR 0x00, CHR 0x00]"
  let ?c = "[CHR 0xb0, CHR 0x07, CHR 0xf4, CHR 0x57, CHR 0x00, CHR 0x02, CHR 0x00, CHR 0x01,
      CHR 0x40, CHR 0x00, CHR 0x00, CHR 0x0C, CHR 0x00, CHR 0x00, CHR 0x00, CHR 0x01,
      CHR 0x00, CHR 0x00, CHR 0x00, CHR 0x00, CHR ''a'', CHR ''b'', CHR ''c'', CHR 0x00]"
  have a: "binary_buffer_next_u32 False ?a 8 = Inr (0x64, 12)
           \<and> unat ((0x64 :: u32) AND INDEX_NODE_MASK) > length ?a"
    by (simp add: depmod_eval)
  have b: "depmod_find_step ?b 8 [] = Step_break 0x4000000C 12
           \<and> (0x4000000C :: u32) AND INDEX_NODE_VALUES \<noteq> 0
           \<and> binary_buffer_next_u32 False ?b 12 = Inr (0, 16)"
    by (simp add: depmod_eval)
  have c: "depmod_find_step ?c 8 [] = Step_break 0x4000000C 12
           \<and> (0x4000000C :: u32) AND INDEX_NODE_VALUES \<noteq> 0
           \<and> binary_buffer_next_u32 False ?c 12 = Inr (1, 16) \<and> (1 :: u32) \<noteq> 0
           \<and> 12 + 8 \<le> length ?c \<and> CHR '':'' \<notin> set (drop (12 + 8) ?c)"
    by (simp add: depmod_eval)
  from depmod_index_find_malformed [OF depmod_reaches.start, where data = ?a and offset = "0x64"
         and p' = 12 and name = "''foo''" and len_ret = 0] a
  have "depmod_index_find ?a ''foo'' 0
          = Inl (depmod_index_buffer_error ''offset is out of bounds'')" by blast
  moreover
  from depmod_index_find_malformed [OF depmod_reaches.start, where data = ?b
         and offset = "0x4000000C" and vpos = 12 and p' = 16 and name = "[]" and len_ret = 7] b
  have "depmod_index_find ?b [] 7 = Inr (None, 7)" by blast
  moreover
  from depmod_index_find_malformed [OF depmod_reaches.start, where data = ?c
         and offset = "0x4000000C" and vpos = 12 and p' = 16 and value_count = 1
         and name = "[]" and len_ret = 7] c
  have "depmod_index_find ?c [] 7
          = Inl (depmod_index_buffer_error expected_colon)" by blast
  ultimately show ?thesis by blast
qed

text \<open>
  Claim C5 as stated fails: a root offset beyond the end of the file gives an error, not
  the "not found" result.
\<close>

theorem depmod_index_find_out_of_bounds_counterexample:
  "depmod_index_find
     [CHR 0xb0, CHR 0x07, CHR 0xf4, CHR 0x57, CHR 0x00, CHR 0x02, CHR 0x00, CHR 0x01,
      CHR 0x0f, CHR 0xff, CHR 0xff, CHR 0xff] ''foo'' 0
     = Inl (drgn_error_create DRGN_ERROR_OTHER ''offset is out of bounds'')"
  by (simp add: depmod_eval depmod_find_loop.simps)

section \<open>The depmod index: opening\<close>

text \<open>
  Claim C3, as the code has it. \<^verbatim>\<open>depmod_index_init\<close> succeeds, with the file as its
  mapping, exactly on a file that could be mapped, has at least 8 bytes, and whose first
  two 32-bit fields, read as big-endian, are the magic \<^verbatim>\<open>0xb007f457\<close> and the version
  \<^verbatim>\<open>0x00020001\<close>; when the mapped file fails the validation, the mapping is unmapped
  before the file is closed and the error returned.
\<close>

theorem depmod_index_open:
  "(fst (depmod_index_init dep) = Inr data \<longleftrightarrow>
      dep = Maps data \<and> 8 \<le> length data \<and> load_u32 False data = 0xb007f457 \<and>
      load_u32 False (drop 4 data) = 0x00020001)
   \<and> (isl (fst (depmod_index_init (Maps bytes))) \<longrightarrow>
        snd (depmod_index_init (Maps bytes)) =
          [Sys_open, Sys_fstat, Sys_mmap, Sys_munmap, Sys_close])"
  by (cases dep)
     (auto simp: depmod_index_init_def depmod_index_validate_def binary_buffer_next_u32_def
        binary_buffer_check_bounds_def split: sum.splits option.splits if_splits)

theorem depmod_index_open_witness:
  "fst (depmod_index_init
          (Maps [CHR 0xb0, CHR 0x07, CHR 0xf4, CHR 0x57, CHR 0x00, CHR 0x02, CHR 0x00, CHR 0x01]))
     = Inr [CHR 0xb0, CHR 0x07, CHR 0xf4, CHR 0x57, CHR 0x00, CHR 0x02, CHR 0x00, CHR 0x01]
   \<and> isl (fst (depmod_index_init (Maps [CHR 0xb0, CHR 0x07, CHR 0xf4, CHR 0x57])))
   \<and> snd (depmod_index_init (Maps [CHR 0xb0, CHR 0x07, CHR 0xf4, CHR 0x57]))
       = [Sys_open, Sys_fstat, Sys_mmap, Sys_munmap, Sys_close]"
proof -
  have "isl (fst (depmod_index_init (Maps [CHR 0xb0, CHR 0x07, CHR 0xf4, CHR 0x57])))"
    by (simp add: depmod_index_init_def depmod_index_validate_def depmod_eval)
  with depmod_index_open [of "Maps [CHR 0xb0, CHR 0x07, CHR 0xf4, CHR 0x57, CHR 0x00, CHR 0x02,
           CHR 0x00, CHR 0x01]" "[CHR 0xb0, CHR 0x07, CHR 0xf4, CHR 0x57, CHR 0x00, CHR 0x02,
           CHR 0x00, CHR 0x01]" "[CHR 0xb0, CHR 0x07, CHR 0xf4, CHR 0x57]"]
  show ?thesis by (simp add: load_u32_def be32_def)
qed

text \<open>
  Claim C3 as stated fails: a file whose first two fields, read as little-endian, are the
  magic and the version is rejected.
\<close>

theorem depmod_index_little_endian_counterexample:
  "load_u32 True [CHR 0x57, CHR 0xf4, CHR 0x07, CHR 0xb0, CHR 0x01, CHR 0x00, CHR 0x02, CHR 0x00]
     = 0xb007f457
   \<and> load_u32 True
         (drop 4 [CHR 0x57, CHR 0xf4, CHR 0x07, CHR 0xb0, CHR 0x01, CHR 0x00, CHR 0x02, CHR 0x00])
     = 0x00020001
   \<and> depmod_index_init
         (Maps [CHR 0x57, CHR 0xf4, CHR 0x07, CHR 0xb0, CHR 0x01, CHR 0x00, CHR 0x02, CHR 0x00])
     = (Inl (drgn_error_create DRGN_ERROR_OTHER ''invalid magic''),
        [Sys_open, Sys_fstat, Sys_mmap, Sys_munmap, Sys_close])"
  by (simp add: depmod_index_init_def depmod_index_validate_def depmod_eval)

section \<open>The iterators: member fallbacks\<close>

lemmas iter_eval = scanf_unsigned_def scanf_skip_string_def sscanf_proc_modules_def
  kernel_module_iterator_scan_live_def kernel_module_iterator_next_live_def
  kernel_module_iterator_next_def c_string_def kernel_module_iterator_read_walk_def
  next_module_def module_base_and_size_def read_range_def read_name_def
  kernel_module_iterator_fields_def section_name_holder_def read_section_name_def
  section_attr_def kernel_module_section_iterator_next_def

lemmas example_eval = example_values_def example_kernel_def example_iterator_def
  example_section_iterator_def

text \<open>
  Claim C7. In a step of the kernel walk that has reached a module: when the read of
  \<^verbatim>\<open>core_layout\<close> fails, the step falls back to \<^verbatim>\<open>core_size\<close> and \<^verbatim>\<open>module_core\<close> if the
  error's kind is \<^verbatim>\<open>LOOKUP\<close>, and returns that very error otherwise; when it succeeds,
  the step goes by \<^verbatim>\<open>size\<close> and \<^verbatim>\<open>base\<close>, and an error of theirs, of any kind, is
  returned. In a step of the section walk that has reached an attribute: when the read of
  \<^verbatim>\<open>battr\<close> fails, the name is read from the attribute itself if the error's kind is
  \<^verbatim>\<open>LOOKUP\<close>, and that very error is returned otherwise; when it succeeds, the name is
  read from \<^verbatim>\<open>battr.attr\<close>, and an error of that read is returned.
\<close>

theorem lookup_fallbacks:
  assumes "modules_file it = None" and "next_module ops it = Inr (n, m)"
    and "sections_dir sit = None" and "section_attr ops sit = Inr (attr, address)"
  shows
    "(drgn_object_member_dereference ops m ''core_layout'' = Inl err \<longrightarrow>
        kernel_module_iterator_next ops it =
          (if error_code err = DRGN_ERROR_LOOKUP then
             (case drgn_object_member_dereference ops m ''core_size'' of
                Inl e \<Rightarrow> Inl e
              | Inr sz \<Rightarrow>
                  (case drgn_object_member_dereference ops m ''module_core'' of
                     Inl e \<Rightarrow> Inl e
                   | Inr base \<Rightarrow>
                       (case read_range ops it n m base sz of
                          Inl e \<Rightarrow> Inl e
                        | Inr it1 \<Rightarrow> read_name ops it1)))
           else Inl err))
     \<and> (drgn_object_member_dereference ops m ''core_layout'' = Inr layout \<longrightarrow>
        kernel_module_iterator_next ops it =
          (case drgn_object_member ops layout ''size'' of
             Inl e \<Rightarrow> Inl e
           | Inr sz \<Rightarrow>
               (case drgn_object_member ops layout ''base'' of
                  Inl e \<Rightarrow> Inl e
                | Inr base \<Rightarrow>
                    (case read_range ops it n m base sz of
                       Inl e \<Rightarrow> Inl e
                     | Inr it1 \<Rightarrow> read_name ops it1))))
     \<and> (drgn_object_member ops attr ''battr'' = Inl err' \<longrightarrow>
        kernel_module_section_iterator_next next_live ops sit =
          (if error_code err' = DRGN_ERROR_LOOKUP then read_section_name ops sit address attr
           else Inl err'))
     \<and> (drgn_object_member ops attr ''battr'' = Inr battr \<longrightarrow>
        kernel_module_section_iterator_next next_live ops sit =
          (case drgn_object_member ops battr ''attr'' of
             Inl e \<Rightarrow> Inl e
           | Inr a \<Rightarrow> read_section_name ops sit address a))"
proof (intro conjI impI)
  assume "drgn_object_member_dereference ops m ''core_layout'' = Inl err"
  with assms(1,2) show "kernel_module_iterator_next ops it =
          (if error_code err = DRGN_ERROR_LOOKUP then
             (case drgn_object_member_dereference ops m ''core_size'' of
                Inl e \<Rightarrow> Inl e
              | Inr sz \<Rightarrow>
                  (case drgn_object_member_dereference ops m ''module_core'' of
                     Inl e \<Rightarrow> Inl e
                   | Inr base \<Rightarrow>
                       (case read_range ops it n m base sz of
                          Inl e \<Rightarrow> Inl e
                        | Inr it1 \<Rightarrow> read_name ops it1)))
           else Inl err)"
    by (simp add: kernel_module_iterator_next_def kernel_module_iterator_read_walk_def
          module_base_and_size_def split: sum.splits)
next
  assume "drgn_object_member_dereference ops m ''core_layout'' = Inr layout"
  with assms(1,2) show "kernel_module_iterator_next ops it =
          (case drgn_object_member ops layout ''size'' of
             Inl e \<Rightarrow> Inl e
           | Inr sz \<Rightarrow>
               (case drgn_object_member ops layout ''base'' of
                  Inl e \<Rightarrow> Inl e
                | Inr base \<Rightarrow>
                    (case read_range ops it n m base sz of
                       Inl e \<Rightarrow> Inl e
                     | Inr it1 \<Rightarrow> read_name ops it1)))"
    by (simp add: kernel_module_iterator_next_def kernel_module_iterator_read_walk_def
          module_base_and_size_def split: sum.splits)
next
  assume "drgn_object_member ops attr ''battr'' = Inl err'"
  with assms(3,4) show "kernel_module_section_iterator_next next_live ops sit =
          (if error_code err' = DRGN_ERROR_LOOKUP then read_section_name ops sit address attr
           else Inl err')"
    by (simp add: kernel_module_section_iterator_next_def section_name_holder_def)
next
  assume "drgn_object_member ops attr ''battr'' = Inr battr"
  with assms(3,4) show "kernel_module_section_iterator_next next_live ops sit =
          (case drgn_object_member ops battr ''attr'' of
             Inl e \<Rightarrow> Inl e
           | Inr a \<Rightarrow> read_section_name ops sit address a)"
    by (simp add: kernel_module_section_iterator_next_def section_name_holder_def
          split: sum.splits)
qed

theorem lookup_fallbacks_witness:
  "kernel_module_iterator_next
     (example_kernel [(''core_layout'', drgn_error_create DRGN_ERROR_LOOKUP ''no member''),
                      (''battr'', drgn_error_create DRGN_ERROR_LOOKUP ''no member'')])
     example_iterator
   = Inr \<lparr>it_name = ''mod->name'', modules_file = None, it_start = 0xffffffffa0000000,
          it_end = 0xffffffffa0010000, it_mod = ''mod'', it_node = ''modules->next'',
          tmp1 = ''mod->module_core'', tmp2 = ''mod->name'', tmp3 = [], head = 0x2000\<rparr>
   \<and> kernel_module_iterator_next
     (example_kernel [(''core_layout'', drgn_error_create DRGN_ERROR_OTHER ''fault''),
                      (''battr'', drgn_error_create DRGN_ERROR_OTHER ''fault'')])
     example_iterator
   = Inl (drgn_error_create DRGN_ERROR_OTHER ''fault'')
   \<and> kernel_module_iterator_next
     (example_kernel [(''size'', drgn_error_create DRGN_ERROR_LOOKUP ''no member'')])
     example_iterator
   = Inl (drgn_error_create DRGN_ERROR_LOOKUP ''no member'')
   \<and> map_sum id fst
     (kernel_module_section_iterator_next Inl
        (example_kernel [(''core_layout'', drgn_error_create DRGN_ERROR_LOOKUP ''no member''),
                         (''battr'', drgn_error_create DRGN_ERROR_LOOKUP ''no member'')])
        example_section_iterator)
   = Inr ''attrs[].name''
   \<and> map_sum id fst
     (kernel_module_section_iterator_next Inl
        (example_kernel [(''core_layout'', drgn_error_create DRGN_ERROR_OTHER ''fault''),
                         (''battr'', drgn_error_create DRGN_ERROR_OTHER ''fault'')])
        example_section_iterator)
   = Inl (drgn_error_create DRGN_ERROR_OTHER ''fault'')
   \<and> map_sum id fst
     (kernel_module_section_iterator_next Inl
        (example_kernel [(''size'', drgn_error_create DRGN_ERROR_LOOKUP ''no member'')])
        example_section_iterator)
   = Inr ''attrs[].battr.attr.name''"
proof -
  let ?lookup = "drgn_error_create DRGN_ERROR_LOOKUP ''no member''"
  let ?fault = "drgn_error_create DRGN_ERROR_OTHER ''fault''"
  let ?A = "example_kernel [(''core_layout'', ?lookup), (''battr'', ?lookup)]"
  let ?F = "example_kernel [(''core_layout'', ?fault), (''battr'', ?fault)]"
  let ?N = "example_kernel [(''size'', ?lookup)]"
  have m: "modules_file example_iterator = None"
    and s: "sections_dir example_section_iterator = None"
    by (simp_all add: example_eval)
  have pa: "next_module ?A example_iterator = Inr (''modules->next'', ''mod'')"
    "section_attr ?A example_section_iterator = Inr (''attrs[]'', 0xffffffffa0001000)"
    by (simp_all add: next_module_def section_attr_def example_eval)
  have pf: "next_module ?F example_iterator = Inr (''modules->next'', ''mod'')"
    "section_attr ?F example_section_iterator = Inr (''attrs[]'', 0xffffffffa0001000)"
    by (simp_all add: next_module_def section_attr_def example_eval)
  have pn: "next_module ?N example_iterator = Inr (''modules->next'', ''mod'')"
    "section_attr ?N example_section_iterator = Inr (''attrs[]'', 0xffffffffa0001000)"
    by (simp_all add: next_module_def section_attr_def example_eval)
  note a = lookup_fallbacks [OF m pa(1) s pa(2), where err = ?lookup and err' = ?lookup
      and next_live = Inl]
  note b = lookup_fallbacks [OF m pf(1) s pf(2), where err = ?fault and err' = ?fault
      and next_live = Inl]
  note c = lookup_fallbacks [OF m pn(1) s pn(2), where layout = "''mod->core_layout''"
      and battr = "''attrs[].battr''" and next_live = Inl]
  from a b c show ?thesis
    by (simp add: read_range_def read_name_def read_section_name_def example_eval)
qed

section \<open>The module iterator: the address range\<close>

lemma start_le_end: "(a \<le> b + a) = (unat a + unat b < 2 ^ 64)" for a b :: u64
proof -
  have "(a \<le> a + b) = (unat a + unat b < 2 ^ 64)"
    using no_olen_add_nat [of a b] by simp
  then show ?thesis by (simp only: add.commute [of b a])
qed

text \<open>
  Claim C8, as the code has it. A module that the iterator emits, in either backend, has
  \<open>end = size + start\<close> in 64-bit unsigned arithmetic, where \<open>start\<close> and \<open>size\<close> are
  what the step parsed or read (the size is what \<^verbatim>\<open>it->end\<close> holds before
  \<^verbatim>\<open>it->end += it->start\<close>); \<open>start \<le> end\<close> holds exactly when the sum does not pass
  \<open>2\<^sup>6\<^sup>4 - 1\<close>.
\<close>

theorem kernel_module_iterator_range:
  assumes "kernel_module_iterator_next ops it = Inr it'"
  shows "\<exists>it1. kernel_module_iterator_fields ops it = Inr it1 \<and>
           it_start it' = it_start it1 \<and> it_end it' = it_end it1 + it_start it1 \<and>
           (it_start it' \<le> it_end it' \<longleftrightarrow> unat (it_start it1) + unat (it_end it1) < 2 ^ 64)"
proof (cases "modules_file it")
  case None
  with assms obtain it1 where r: "kernel_module_iterator_read_walk ops it = Inr it1"
    by (cases "kernel_module_iterator_read_walk ops it")
       (simp_all add: kernel_module_iterator_next_def)
  with assms None have "it_start it' = it_start it1 \<and> it_end it' = it_end it1 + it_start it1"
    by (auto simp: kernel_module_iterator_next_def read_name_def Let_def split: sum.splits)
  moreover from r None have "kernel_module_iterator_fields ops it = Inr it1"
    by (simp add: kernel_module_iterator_fields_def)
  ultimately show ?thesis by (auto simp: start_le_end)
next
  case (Some f)
  with assms obtain it1 p where r: "kernel_module_iterator_scan_live it f = Inr (it1, p)"
    by (cases "kernel_module_iterator_scan_live it f")
       (auto simp: kernel_module_iterator_next_def kernel_module_iterator_next_live_def)
  with assms Some have "it_start it' = it_start it1 \<and> it_end it' = it_end it1 + it_start it1"
    by (auto simp: kernel_module_iterator_next_def kernel_module_iterator_next_live_def)
  moreover from r Some have "kernel_module_iterator_fields ops it = Inr it1"
    by (simp add: kernel_module_iterator_fields_def)
  ultimately show ?thesis by (auto simp: start_le_end)
qed

theorem kernel_module_iterator_range_witness:
  "kernel_module_iterator_next (example_kernel []) example_iterator
   = Inr \<lparr>it_name = ''mod->name'', modules_file = None, it_start = 0xffffffffa0000000,
          it_end = 0xffffffffa0010000, it_mod = ''mod'', it_node = ''modules->next'',
          tmp1 = ''mod->core_layout.base'', tmp2 = ''mod->name'', tmp3 = [], head = 0x2000\<rparr>
   \<and> kernel_module_iterator_fields (example_kernel []) example_iterator
   = Inr \<lparr>it_name = [], modules_file = None, it_start = 0xffffffffa0000000,
          it_end = 0x10000, it_mod = ''mod'', it_node = ''modules->next'',
          tmp1 = ''mod->core_layout.base'', tmp2 = ''mod->core_layout.size'', tmp3 = [],
          head = 0x2000\<rparr>
   \<and> (0xffffffffa0000000 :: u64) \<le> 0xffffffffa0010000
   \<and> unat (0xffffffffa0000000 :: u64) + unat (0x10000 :: u64) < 2 ^ 64"
proof -
  have n: "kernel_module_iterator_next (example_kernel []) example_iterator
   = Inr \<lparr>it_name = ''mod->name'', modules_file = None, it_start = 0xffffffffa0000000,
          it_end = 0xffffffffa0010000, it_mod = ''mod'', it_node = ''modules->next'',
          tmp1 = ''mod->core_layout.base'', tmp2 = ''mod->name'', tmp3 = [], head = 0x2000\<rparr>"
    by (simp add: iter_eval example_eval)
  have f: "kernel_module_iterator_fields (example_kernel []) example_iterator
   = Inr \<lparr>it_name = [], modules_file = None, it_start = 0xffffffffa0000000,
          it_end = 0x10000, it_mod = ''mod'', it_node = ''modules->next'',
          tmp1 = ''mod->core_layout.base'', tmp2 = ''mod->core_layout.size'', tmp3 = [],
          head = 0x2000\<rparr>"
    by (simp add: iter_eval example_eval)
  from kernel_module_iterator_range [OF n] f
  have "(0xffffffffa0000000 :: u64) \<le> 0xffffffffa0010000 \<longleftrightarrow>
        unat (0xffffffffa0000000 :: u64) + unat (0x10000 :: u64) < 2 ^ 64"
    by auto
  with n f show ?thesis by simp
qed

text \<open>
  Claim C8 as stated fails: for a line of \<^verbatim>\<open>/proc/modules\<close> whose address and size add
  up beyond 64 bits, the sum wraps and the module is emitted with \<open>end < start\<close>.
\<close>

theorem kernel_module_iterator_wrap_counterexample:
  "kernel_module_iterator_next (example_kernel [])
     \<lparr>it_name = [],
        modules_file = Some (Line ''foo 512 0 - Live 0xffffffffffffff00\<newline>'' Eof),
        it_start = 0, it_end = 0, it_mod = [], it_node = [], tmp1 = [], tmp2 = [], tmp3 = [],
        head = 0\<rparr>
   = Inr \<lparr>it_name = ''foo'', modules_file = Some Eof, it_start = 0xffffffffffffff00,
          it_end = 0x100, it_mod = [], it_node = [], tmp1 = [], tmp2 = [], tmp3 = [],
          head = 0\<rparr>
   \<and> \<not> (0xffffffffffffff00 :: u64) \<le> 0x100"
  by (simp add: iter_eval strtoull_eval)

section \<open>The coordinator: files that share a build ID\<close>

lemmas coord_eval = call_indexer_def drgn_debug_info_report_error_def
  drgn_debug_info_report_elf_def cache_kernel_module_sections_def
  report_loaded_kernel_module_def

lemmas coord_example_eval = accepting_indexer_def unbounded_def example_elf_def
  unreadable_elf_def example_kmods_def example_module_def example_environment_def
  example_iteration_def example_table_order_def

text \<open>
  The sections in the map are sections of the handle: an index that the first loop enters
  is below the number of sections.
\<close>

lemma elf_scn_name_map_fill_range:
  assumes "elf_scn_name_map_fill can_grow scn_map i scns = Inr scn_map'"
    and "\<And>key j. map_of scn_map key = Some j \<Longrightarrow> j < i"
    and "map_of scn_map' key = Some j"
  shows "j < i + length scns"
  using assms
proof (induction scns arbitrary: scn_map i)
  case Nil
  then show ?case by auto
next
  case (Cons scn scns)
  from Cons.prems(1) obtain scn_map1 where
    step: "elf_scn_name_map_fill can_grow scn_map1 (Suc i) scns = Inr scn_map'"
    and scn_map1: "scn_map1 = scn_map \<or> (\<exists>name. scn_map1 = scn_map @ [(name, i)])"
    by (auto split: if_splits option.splits)
  have "j' < Suc i" if "map_of scn_map1 key' = Some j'" for key' j'
    using that scn_map1 Cons.prems(2) [of key' j']
    by (auto simp: map_add_Some_iff less_Suc_eq split: if_splits)
  from Cons.IH [OF step this Cons.prems(3)] show ?case by simp
qed

text \<open>
  A file that the ELF library reads and writes without an error, with memory for the map
  of its sections, has its sections patched whenever the module's section iteration ends
  regularly.
\<close>

lemma elf_scn_name_map_fill_readable:
  assumes "list_all (\<lambda>scn. shdr_ok scn \<and> (if sh_alloc scn then scn_name scn \<noteq> None else True)) scns"
    and "\<And>n. length scn_map < n \<Longrightarrow> n \<le> length scn_map + length scns \<Longrightarrow> can_grow n"
  shows "\<exists>scn_map'. elf_scn_name_map_fill can_grow scn_map i scns = Inr scn_map'"
  using assms
proof (induction scns arbitrary: scn_map i)
  case Nil
  then show ?case by auto
next
  case (Cons scn scns)
  from Cons.prems(1) have rest:
    "list_all (\<lambda>scn. shdr_ok scn \<and> (if sh_alloc scn then scn_name scn \<noteq> None else True)) scns"
    and hd: "shdr_ok scn" "sh_alloc scn \<Longrightarrow> scn_name scn \<noteq> None"
    by (auto split: if_splits)
  have keep: "\<exists>scn_map'. elf_scn_name_map_fill can_grow scn_map (Suc i) scns = Inr scn_map'"
  proof (rule Cons.IH [OF rest])
    show "can_grow n" if "length scn_map < n" "n \<le> length scn_map + length scns" for n
      using that Cons.prems(2) [of n] by simp
  qed
  show ?case
  proof (cases "sh_alloc scn")
    case False
    with hd keep show ?thesis by simp
  next
    case True
    with hd obtain key where key: "scn_name scn = Some key" by auto
    show ?thesis
    proof (cases "map_of scn_map key")
      case (Some j)
      with True hd key keep show ?thesis by simp
    next
      case None
      have grow: "can_grow (Suc (length scn_map))"
        using Cons.prems(2) [of "Suc (length scn_map)"] by simp
      have "\<exists>scn_map'. elf_scn_name_map_fill can_grow (scn_map @ [(key, i)]) (Suc i) scns
                = Inr scn_map'"
      proof (rule Cons.IH [OF rest])
        show "can_grow n" if "length (scn_map @ [(key, i)]) < n"
          "n \<le> length (scn_map @ [(key, i)]) + length scns" for n
          using that Cons.prems(2) [of n] by simp
      qed
      with True hd key None grow show ?thesis by simp
    qed
  qed
qed

lemma patch_sections_readable:
  assumes "list_all (\<lambda>scn. shdr_ok scn \<and> update_ok scn) scns"
    and "\<And>key j. map_of scn_map key = Some j \<Longrightarrow> j < length scns"
  shows "fst (patch_sections scn_map sections err scns) = err"
  using assms
proof (induction sections arbitrary: scns)
  case Nil
  show ?case by simp
next
  case (Cons yielded sections)
  obtain name address where yielded: "yielded = (name, address)" by (cases yielded)
  show ?case
  proof (cases "map_of scn_map name")
    case None
    with yielded Cons show ?thesis by simp
  next
    case (Some i)
    from Cons.prems(2) [OF Some] have i: "i < length scns" .
    with Cons.prems(1) have ok: "shdr_ok (scns ! i)" "update_ok (scns ! i)"
      by (simp_all add: list_all_length)
    have "fst (patch_sections scn_map sections err (scns[i := (scns ! i)\<lparr>sh_addr := address\<rparr>]))
            = err"
    proof (rule Cons.IH)
      show "list_all (\<lambda>scn. shdr_ok scn \<and> update_ok scn)
              (scns[i := (scns ! i)\<lparr>sh_addr := address\<rparr>])"
        using Cons.prems(1) ok i by (auto simp: list_all_length nth_list_update)
      show "j < length (scns[i := (scns ! i)\<lparr>sh_addr := address\<rparr>])"
        if "map_of scn_map key = Some j" for key j
        using Cons.prems(2) [OF that] by simp
    qed
    with yielded Some ok show ?thesis by simp
  qed
qed

lemma cache_kernel_module_sections_readable:
  assumes "elf_readable can_grow e" "lm_sections_init m = None" "lm_sections_end m = drgn_stop"
  shows "fst (cache_kernel_module_sections can_grow m e) = None"
proof -
  from assms(1) have ok: "shstrndx_ok e"
    and scns: "list_all (\<lambda>scn. shdr_ok scn \<and> update_ok scn \<and>
                 (if sh_alloc scn then scn_name scn \<noteq> None else True)) (elf_sections e)"
    and grow: "list_all can_grow [1..<Suc (length (elf_sections e))]"
    by (simp_all add: elf_readable_def)
  from scns have
    1: "list_all (\<lambda>scn. shdr_ok scn \<and> (if sh_alloc scn then scn_name scn \<noteq> None else True))
          (elf_sections e)"
    and 2: "list_all (\<lambda>scn. shdr_ok scn \<and> update_ok scn) (elf_sections e)"
    by (simp_all add: list_all_iff)
  have "\<exists>scn_map'. elf_scn_name_map_fill can_grow [] 0 (elf_sections e) = Inr scn_map'"
  proof (rule elf_scn_name_map_fill_readable [OF 1])
    show "can_grow n" if "length [] < n" "n \<le> length [] + length (elf_sections e)" for n
      using that grow by (simp add: list_all_iff del: upt_Suc)
  qed
  then obtain scn_map where fill: "elf_scn_name_map_fill can_grow [] 0 (elf_sections e) = Inr scn_map"
    by auto
  have range: "j < length (elf_sections e)" if "map_of scn_map key = Some j" for key j
    using elf_scn_name_map_fill_range [OF fill _ that] by simp
  from patch_sections_readable [OF 2 range, where sections = "lm_sections m" and err = drgn_stop]
  have "fst (patch_sections scn_map (lm_sections m) drgn_stop (elf_sections e)) = drgn_stop" by simp
  with ok fill assms(2,3) show ?thesis
    by (auto simp: cache_kernel_module_sections_def split: prod.splits)
qed

text \<open>
  A file whose sections cannot be read is not reported to the indexer: the error goes to
  the error channel, and the walk goes on with the next file of the chain.
\<close>

lemma report_chain_unreadable:
  "report_chain accepting_indexer unbounded \<lparr>calls = [], load_default = False\<rparr> example_module
     [\<lparr>kmod_path = ''bad.ko'', kmod_fd = 5, kmod_elf = unreadable_elf, gnu_build_id = ''B''\<rparr>,
      \<lparr>kmod_path = ''first.ko'', kmod_fd = 3, kmod_elf = example_elf, gnu_build_id = ''B''\<rparr>]
   = (None,
      \<lparr>calls =
         [Report_error (Some ''bad.ko'') (Some ''could not get section addresses'')
            (Some drgn_error_libelf),
          Report_elf ''first.ko'' 3
            \<lparr>shstrndx_ok = True,
             elf_sections =
               [\<lparr>shdr_ok = True, scn_name = Some ''.text'', sh_alloc = True,
                 sh_addr = 0xffffffffa0000000, update_ok = True\<rparr>,
                \<lparr>shdr_ok = True, scn_name = Some ''.debug_info'', sh_alloc = False, sh_addr = 0,
                 update_ok = True\<rparr>],
             elf_gnu_build_id = Some ''B''\<rparr>
            0xffffffffa0000000 0xffffffffa0010000 (Some ''foo'')],
       load_default = False\<rparr>)"
  by (simp add: coord_eval coord_example_eval)



lemma report_call_build_id [simp]:
  "report_call can_grow m (kmod\<lparr>gnu_build_id := b\<rparr>) = report_call can_grow m kmod"
  by (simp add: report_call_def)




section \<open>The coordinator: a module without a build ID\<close>

text \<open>
  Claim C10. When there is a candidate module file (so that the table is passed on) and
  the build ID of a loaded module cannot be extracted or is empty, the step for that
  module makes one call, the error report "could not find GNU build ID", and leaves the
  table and the depmod index as they were, whatever the depmod index is and whether or
  not the module is indexed: the depmod index is not opened and no default location is
  looked up. The loop continues, or ends with the error that the report returns. (The
  report returns success or a fatal abort, not the "not found" signal.)
\<close>

theorem missing_build_id_skips_default:
  assumes "kmods \<noteq> []" and "no_build_id m"
    and "indexer_of env (calls load) (build_id_error_call m) \<noteq> Some drgn_not_found"
  shows "report_loaded_step env len0 (load, kmod_table_arg kmods tab, depmod) m =
           ((case indexer_of env (calls load) (build_id_error_call m) of
               None \<Rightarrow> Continue
             | Some err \<Rightarrow> Break err),
            (load\<lparr>calls := calls load @ [build_id_error_call m]\<rparr>, Some tab, depmod))"
proof (cases "lm_build_id m")
  case (Inl err)
  with assms show ?thesis
    by (auto simp: report_loaded_step_def kmod_table_arg_def build_id_error_call_def
          report_loaded_kernel_module_def drgn_debug_info_report_error_def call_indexer_def
          split: option.splits)
next
  case (Inr key)
  with assms(2) have "key = []" by (simp add: no_build_id_def)
  with Inr assms(1,3) show ?thesis
    by (auto simp: report_loaded_step_def kmod_table_arg_def build_id_error_call_def
          report_loaded_kernel_module_def drgn_debug_info_report_error_def call_indexer_def
          split: option.splits)
qed

theorem missing_build_id_skips_default_witness:
  "report_loaded_step example_environment 0
     (\<lparr>calls = [], load_default = True\<rparr>, kmod_table_arg example_kmods Map.empty,
      Some \<lparr>depmod_addr = None\<rparr>)
     (example_module\<lparr>lm_build_id := Inr []\<rparr>)
   = (Continue,
      (\<lparr>calls = [Report_error (Some ''foo'') (Some ''could not find GNU build ID'') None],
         load_default = True\<rparr>,
       Some Map.empty, Some \<lparr>depmod_addr = None\<rparr>))
   \<and> is_indexed example_environment ''foo'' = False"
proof -
  have 1: "example_kmods \<noteq> []" by (simp add: example_kmods_def)
  have 2: "no_build_id (example_module\<lparr>lm_build_id := Inr []\<rparr>)"
    by (simp add: no_build_id_def)
  have 3: "indexer_of example_environment (calls \<lparr>calls = [], load_default = True\<rparr>)
             (build_id_error_call (example_module\<lparr>lm_build_id := Inr []\<rparr>))
           \<noteq> Some drgn_not_found"
    by (simp add: coord_example_eval)
  from missing_build_id_skips_default [OF 1 2 3, of 0 Map.empty "Some \<lparr>depmod_addr = None\<rparr>"]
  show ?thesis
    by (simp add: build_id_error_call_def coord_example_eval)
qed

end
